(* ===== verification/Prelude.thy ===== *)
theory Prelude
  imports Complex_Main "HOL-Library.Word" "HOL-Library.Sublist"
begin

text \<open>
  Shared vocabulary of the development: the names of the model's string types,
  the JavaScript truthiness of the values the code tests with \<open>if (x)\<close>,
  and the generic lemmas on lists, options and 32-bit words that the
  component theories use.  The collection \<open>handler_simps\<close> gathers the
  defining equations of the event handlers, so that a component proof can say
  \<open>simp add: handler_simps\<close>.
\<close>

named_theorems handler_simps "defining equations of the modelled event handlers"

type_synonym device_id = string
type_synonym doc_id = string

section \<open>JavaScript truthiness\<close>

text \<open>
  In JavaScript \<open>!s\<close> is true for the empty string as well as for
  \<open>undefined\<close> and \<open>null\<close>.  An optional string field (\<open>boundDeviceId?: string\<close>,
  the result of \<open>localStorage.getItem\<close>) is \<open>string option\<close>; it is truthy
  exactly when it is present and non-empty.
\<close>

definition js_truthy :: "string option \<Rightarrow> bool" where
  "js_truthy v = (case v of None \<Rightarrow> False | Some s \<Rightarrow> s \<noteq> [])"

text \<open>
  \<open>map_where P f xs\<close> is the source's idiom
  \<open>xs.map(d => d.id === k ? f(d) : d)\<close> for updating a record in an array;
  \<open>find_key k i xs\<close> is the first element whose key is \<open>i\<close>, as
  \<open>xs.find(d => d.id === i)\<close>.
\<close>

definition map_where :: "('a \<Rightarrow> bool) \<Rightarrow> ('a \<Rightarrow> 'a) \<Rightarrow> 'a list \<Rightarrow> 'a list" where
  "map_where P f xs = map (\<lambda>x. if P x then f x else x) xs"

definition find_key :: "('a \<Rightarrow> 'k) \<Rightarrow> 'k \<Rightarrow> 'a list \<Rightarrow> 'a option" where
  "find_key k i xs = find (\<lambda>x. k x = i) xs"

text \<open>The line break of template literals and of \<open>\\n\<close> escapes.\<close>

definition newline :: string where
  "newline = [CHR 0x0A]"

section \<open>Lemmas\<close>

lemma js_truthy_simps [simp]:
  "\<not> js_truthy None"
  "js_truthy (Some s) \<longleftrightarrow> s \<noteq> []"
  by (simp_all add: js_truthy_def)

subsection \<open>Updating the elements of a list that carry a key\<close>

lemma map_where_length [simp]: "length (map_where P f xs) = length xs"
  by (simp add: map_where_def)

lemma map_where_id:
  "\<forall>x\<in>set xs. \<not> P x \<Longrightarrow> map_where P f xs = xs"
  by (induction xs) (simp_all add: map_where_def)

lemma map_where_map_key:
  assumes "\<And>x. P x \<Longrightarrow> k (f x) = k x"
  shows "map k (map_where P f xs) = map k xs"
  using assms by (induction xs) (simp_all add: map_where_def)

lemma set_map_where:
  "set (map_where P f xs) = {f x |x. x \<in> set xs \<and> P x} \<union> {x. x \<in> set xs \<and> \<not> P x}"
  by (auto simp: map_where_def)

lemma in_set_map_whereE:
  assumes "y \<in> set (map_where P f xs)"
  obtains x where "x \<in> set xs" "P x" "y = f x" | "y \<in> set xs" "\<not> P y"
  using assms by (auto simp: map_where_def split: if_splits)

subsection \<open>Lookup by key in a list of records\<close>

lemma find_key_Cons [simp]:
  "find_key k i (x # xs) = (if k x = i then Some x else find_key k i xs)"
  by (simp add: find_key_def)

lemma find_key_Nil [simp]: "find_key k i [] = None"
  by (simp add: find_key_def)

lemma find_key_None_iff: "find_key k i xs = None \<longleftrightarrow> i \<notin> k ` set xs"
  by (induction xs) auto

lemma find_key_SomeD:
  "find_key k i xs = Some x \<Longrightarrow> x \<in> set xs \<and> k x = i"
  by (induction xs) (auto split: if_splits)

lemma find_key_distinct:
  "distinct (map k xs) \<Longrightarrow> x \<in> set xs \<Longrightarrow> find_key k (k x) xs = Some x"
  by (induction xs) auto

lemma find_key_map_where:
  assumes "\<And>x. P x \<Longrightarrow> k (f x) = k x"
  shows "find_key k i (map_where P f xs) = map_option (\<lambda>x. if P x then f x else x) (find_key k i xs)"
  using assms by (induction xs) (auto simp: map_where_def)

subsection \<open>Words\<close>

lemma sint_32_bounds:
  "- (2 ^ 31) \<le> sint (w :: 32 word) \<and> sint w < 2 ^ 31"
  using sint_ge [of w] sint_lt [of w] by simp

lemma abs_sint_32_le: "\<bar>sint (w :: 32 word)\<bar> \<le> 2 ^ 31"
  using sint_32_bounds [of w] by arith

end
