(* ===== verification/Store_Types.thy ===== *)
theory Store_Types
  imports Prelude
begin

text \<open>
  The data model of \<open>src/types.ts\<close>: the document type enumeration, the
  catalog record \<open>DocumentItem\<close>, the session record \<open>User\<close> and the
  navigation state \<open>ViewState\<close>.  TypeScript's \<open>number\<close> fields that hold
  credits (\<open>price\<close>, \<open>balance\<close>) are integers in every value the program
  creates (the mock data, the login profiles and the integer-stepped price
  input), so they are \<open>int\<close>; \<open>rating\<close> is a fraction (\<open>4.5\<close>), so it is
  \<open>rat\<close>.  Optional fields (\<open>aiSummary?\<close>, \<open>boundDeviceId?\<close>) are options.
  Field names carry a prefix where TypeScript reuses a name (\<open>id\<close>,
  \<open>name\<close>, \<open>type\<close>), since record fields share one name space here.
\<close>

datatype doc_type = NOTES | EXAM | BOOK | SLIDE

record document_item =
  doc_id :: doc_id
  title :: string
  description :: string
  price :: int
  author :: string
  dtype :: doc_type
  tags :: "string list"
  thumbnailUrl :: string
  aiSummary :: "string option"
  purchased :: bool
  rating :: rat
  boundDeviceId :: "device_id option"

record user =
  user_id :: string
  user_name :: string
  balance :: int
  library :: "doc_id list"
  deviceId :: device_id

datatype view_state = HOME | MARKET | LIBRARY | UPLOAD

text \<open>
  The object the upload form hands to \<open>onUpload\<close>
  (\<open>src/components/UploadModal.tsx\<close>, lines 29--37): the interface between
  the form and the catalog.  \<open>aiSummary\<close> is \<open>aiData?.summary || ''\<close>, a
  string that may be empty.
\<close>

record upload_data =
  up_title :: string
  up_description :: string
  up_price :: int
  up_type :: doc_type
  up_tags :: "string list"
  up_aiSummary :: string
  up_thumbnailUrl :: string

text \<open>\<open>DocType\<close> is a string enum; its runtime values are the constructor names.\<close>

fun doc_type_str :: "doc_type \<Rightarrow> string" where
  "doc_type_str NOTES = ''NOTES''"
| "doc_type_str EXAM = ''EXAM''"
| "doc_type_str BOOK = ''BOOK''"
| "doc_type_str SLIDE = ''SLIDE''"

text \<open>\<open>Object.values(DocType)\<close>, the options of the upload form's select box.\<close>

definition doc_type_values :: "doc_type list" where
  "doc_type_values = [NOTES, EXAM, BOOK, SLIDE]"

lemma doc_type_values_complete: "set doc_type_values = UNIV"
  by (auto simp: doc_type_values_def intro: doc_type.exhaust)

lemma doc_type_str_inj: "doc_type_str a = doc_type_str b \<longleftrightarrow> a = b"
  by (cases a; cases b) simp_all

end
