(* ===== verification/Access_Gate.thy ===== *)
theory Access_Gate
  imports Store_Types
begin

text \<open>
  The device-binding check, \<open>verifyDeviceBinding\<close> of
  \<open>src/utils/security.ts\<close> (lines 27--30), and the abstract contract it is
  meant to implement: the specification's \<open>authorize(document, device)\<close>,
  which allows when the document is unbound or bound to the requesting device
  and otherwise denies with both identities.  The two call sites that guard
  reading and exporting (\<open>handleRead\<close> in \<open>src/App.tsx\<close> and
  \<open>handleQuickDownload\<close> in \<open>src/components/Marketplace.tsx\<close>) inline the same
  test; their models are in the theories of those components and are proved
  to agree with \<open>verifyDeviceBinding\<close> there.

  The code tests the binding with JavaScript truthiness, so a document bound to
  the empty string counts as unbound; the contract has no such case.  The
  refinement lemma below is therefore stated for bindings that are not the
  empty string, and the difference is recorded as a separate lemma.
\<close>

definition verifyDeviceBinding :: "document_item \<Rightarrow> device_id \<Rightarrow> bool" where
  "verifyDeviceBinding doc currentDeviceId =
     (if \<not> js_truthy (boundDeviceId doc) then True
      else boundDeviceId doc = Some currentDeviceId)"

text \<open>The contract of the specification (section 4.4, \<open>authorize\<close>).\<close>

datatype decision = Allow | Deny device_id device_id

definition authorize :: "device_id option \<Rightarrow> device_id \<Rightarrow> decision" where
  "authorize bound requester =
     (case bound of
        None \<Rightarrow> Allow
      | Some b \<Rightarrow> if b = requester then Allow else Deny b requester)"

text \<open>A catalogue entry to evaluate the check on.\<close>

definition sample_doc :: document_item where
  "sample_doc =
     \<lparr>doc_id = ''d1'', title = ''Notes'', description = ''Sample'', price = 10, author = ''A'',
      dtype = NOTES, tags = [], thumbnailUrl = [], aiSummary = None, purchased = False,
      rating = 0, boundDeviceId = None\<rparr>"

section \<open>Lemmas\<close>

lemma verifyDeviceBinding_iff:
  "verifyDeviceBinding doc cur \<longleftrightarrow>
     (case boundDeviceId doc of None \<Rightarrow> True | Some b \<Rightarrow> b = [] \<or> b = cur)"
  by (auto simp: verifyDeviceBinding_def js_truthy_def split: option.split)

lemma verifyDeviceBinding_unbound [simp]:
  "boundDeviceId doc = None \<Longrightarrow> verifyDeviceBinding doc cur"
  by (simp add: verifyDeviceBinding_def)

lemma verifyDeviceBinding_bound_self [simp]:
  "boundDeviceId doc = Some cur \<Longrightarrow> verifyDeviceBinding doc cur"
  by (simp add: verifyDeviceBinding_def)

section \<open>Properties of the check\<close>

text \<open>
  C8 (refinement).  For every binding other than the empty string,
  \<open>verifyDeviceBinding\<close> allows exactly when the contract's \<open>authorize\<close>
  returns \<open>Allow\<close>; for a binding to the empty string the code allows every
  device while the contract denies every non-empty one.
\<close>

theorem verifyDeviceBinding_refines:
  "(boundDeviceId doc \<noteq> Some [] \<longrightarrow>
      (verifyDeviceBinding doc cur \<longleftrightarrow> authorize (boundDeviceId doc) cur = Allow))
   \<and> (boundDeviceId doc = Some [] \<and> cur \<noteq> [] \<longrightarrow>
      verifyDeviceBinding doc cur \<and> authorize (boundDeviceId doc) cur = Deny [] cur)"
  by (auto simp: verifyDeviceBinding_iff authorize_def split: option.split)

theorem verifyDeviceBinding_refines_witness:
  "boundDeviceId (sample_doc\<lparr>boundDeviceId := Some ''DEV-AAAA''\<rparr>) \<noteq> Some []
   \<and> \<not> verifyDeviceBinding (sample_doc\<lparr>boundDeviceId := Some ''DEV-AAAA''\<rparr>) ''DEV-BBBB''
   \<and> authorize (Some ''DEV-AAAA'') ''DEV-BBBB'' = Deny ''DEV-AAAA'' ''DEV-BBBB''
   \<and> verifyDeviceBinding (sample_doc\<lparr>boundDeviceId := Some []\<rparr>) ''DEV-BBBB''"
  using verifyDeviceBinding_refines [of "sample_doc\<lparr>boundDeviceId := Some ''DEV-AAAA''\<rparr>" "''DEV-BBBB''"]
    verifyDeviceBinding_refines [of "sample_doc\<lparr>boundDeviceId := Some []\<rparr>" "''DEV-BBBB''"]
  by (simp add: authorize_def)

end
