(* ===== verification/Licensing.thy ===== *)
theory Licensing
  imports Access_Gate
begin

text \<open>
  The licensing core of \<open>src/App.tsx\<close>: the application state held in React
  state hooks (lines 57--71), the mock catalogue (lines 12--55), and the
  handlers that change it: \<open>handleLogin\<close> (73--101), \<open>handleBuy\<close>
  (103--130), \<open>handleUpload\<close> (132--145) and \<open>handleRead\<close> (147--156).

  Each handler is a function from the state before the event to an outcome
  and the state after it.  React batches the \<open>setState\<close> calls of one handler
  and applies them before the next event; the model applies them together.
  \<open>handleBuy\<close> reads \<open>user\<close> from its render closure for its guards and the
  binding but applies the debit to \<open>prev\<close>; with one event at a time both are
  the current user.  \<open>handleBuy\<close>'s three effects are the ledger's debit and
  grant (lines 113--117, \<open>buy_user_update\<close>) and the catalogue's binding
  (lines 120--125, \<open>bind_documents\<close>).  The browser dialogs are inputs:
  \<open>window.confirm\<close> is the \<open>consent\<close> argument, \<open>alert\<close> an outcome value.
  The random identifier of an upload (\<open>Math.random().toString(36)\<close>) is an
  argument.  Strings with Vietnamese letters or emoji are written in ASCII
  transliteration; no property depends on them.
\<close>

record app_state =
  isAuthenticated :: bool
  view :: view_state
  documents :: "document_item list"
  app_user :: user
  currentReadingDoc :: "document_item option"

definition MOCK_DOCS :: "document_item list" where
  "MOCK_DOCS =
    [\<lparr>doc_id = ''1'', title = ''Giai Tich 1 - Full Cong Thuc'',
      description = ''Tong hop toan bo cong thuc giai tich 1 kem vi du minh hoa de hieu.'',
      price = 50, author = ''MinhDev'', dtype = NOTES, tags = [''#Toan'', ''#DaiHoc''],
      thumbnailUrl = ''https://picsum.photos/seed/math/400/300'',
      aiSummary = Some ''Bi kip qua mon Giai Tich de dang.'', purchased = False,
      rating = 9 / 2, boundDeviceId = None\<rparr>,
     \<lparr>doc_id = ''2'', title = ''Lich Su Dang - De Trac Nghiem'',
      description = ''Bo 500 cau hoi trac nghiem on thi cuoi ky co dap an chi tiet.'',
      price = 80, author = ''LanAnh'', dtype = EXAM, tags = [''#LichSu'', ''#TracNghiem''],
      thumbnailUrl = ''https://picsum.photos/seed/history/400/300'',
      aiSummary = Some ''Ngan hang cau hoi trac nghiem day du nhat.'', purchased = False,
      rating = 24 / 5, boundDeviceId = None\<rparr>,
     \<lparr>doc_id = ''3'', title = ''Slide Thuyet Trinh Ky Nang Mem'',
      description = ''Slide Powerpoint thiet ke dep, hien dai ve chu de Giao tiep.'',
      price = 120, author = ''DesignPro'', dtype = SLIDE, tags = [''#SoftSkills'', ''#PPT''],
      thumbnailUrl = ''https://picsum.photos/seed/ppt/400/300'',
      aiSummary = Some ''Mau slide an tuong cho bai thuyet trinh nhom.'', purchased = False,
      rating = 5, boundDeviceId = None\<rparr>]"

definition guest_user :: user where
  "guest_user = \<lparr>user_id = ''u1'', user_name = ''Guest'', balance = 0, library = [], deviceId = []\<rparr>"

definition initial_state :: app_state where
  "initial_state =
     \<lparr>isAuthenticated = False, view = HOME, documents = MOCK_DOCS, app_user = guest_user,
      currentReadingDoc = None\<rparr>"

subsection \<open>Login: the credential-to-profile mapping\<close>

definition login_profile :: "string \<Rightarrow> device_id \<Rightarrow> user" where
  "login_profile key dev =
     (if key = ''vip123@'' then
        \<lparr>user_id = ''vip_user'', user_name = ''VIP Member'', balance = 9999, library = [], deviceId = dev\<rparr>
      else if key = ''test123@'' then
        \<lparr>user_id = ''test_user'', user_name = ''Member'', balance = 500, library = [], deviceId = dev\<rparr>
      else \<lparr>user_id = ''guest'', user_name = ''Guest'', balance = 0, library = [], deviceId = dev\<rparr>)"

definition handleLogin :: "app_state \<Rightarrow> string \<Rightarrow> device_id \<Rightarrow> app_state" where
  "handleLogin s key dev = s\<lparr>app_user := login_profile key dev, isAuthenticated := True\<rparr>"

subsection \<open>Purchase\<close>

datatype buy_outcome = Buy_AlreadyOwned | Buy_InsufficientBalance | Buy_Declined | Buy_Completed

text \<open>Lines 113--117: debit the price and grant the document.\<close>

definition buy_user_update :: "user \<Rightarrow> document_item \<Rightarrow> user" where
  "buy_user_update u doc = u\<lparr>balance := balance u - price doc, library := library u @ [doc_id doc]\<rparr>"

text \<open>Lines 120--125: bind every catalogue entry with the document's id to the device.\<close>

definition bind_documents :: "document_item list \<Rightarrow> doc_id \<Rightarrow> device_id \<Rightarrow> document_item list" where
  "bind_documents docs i dev =
     map_where (\<lambda>d. doc_id d = i) (\<lambda>d. d\<lparr>boundDeviceId := Some dev\<rparr>) docs"

definition handleBuy :: "app_state \<Rightarrow> document_item \<Rightarrow> bool \<Rightarrow> buy_outcome \<times> app_state" where
  "handleBuy s doc consent =
     (let u = app_user s in
      if doc_id doc \<in> set (library u) then (Buy_AlreadyOwned, s)
      else if balance u < price doc then (Buy_InsufficientBalance, s)
      else if \<not> consent then (Buy_Declined, s)
      else (Buy_Completed,
            s\<lparr>app_user := buy_user_update u doc,
              documents := bind_documents (documents s) (doc_id doc) (deviceId u),
              view := LIBRARY\<rparr>))"

subsection \<open>Publishing\<close>

definition upload_document :: "user \<Rightarrow> upload_data \<Rightarrow> doc_id \<Rightarrow> document_item" where
  "upload_document u data newId =
     \<lparr>doc_id = newId, title = up_title data, description = up_description data,
      price = up_price data, author = user_name u, dtype = up_type data, tags = up_tags data,
      thumbnailUrl = up_thumbnailUrl data, aiSummary = Some (up_aiSummary data),
      purchased = False, rating = 0, boundDeviceId = Some (deviceId u)\<rparr>"

definition handleUpload :: "app_state \<Rightarrow> upload_data \<Rightarrow> doc_id \<Rightarrow> app_state" where
  "handleUpload s data newId =
     (let u = app_user s; newDoc = upload_document u data newId in
      s\<lparr>documents := newDoc # documents s,
        app_user := u\<lparr>library := library u @ [doc_id newDoc]\<rparr>,
        view := MARKET\<rparr>)"

subsection \<open>Reading\<close>

datatype read_outcome = Read_Opened | Read_Denied device_id device_id

definition handleRead :: "app_state \<Rightarrow> document_item \<Rightarrow> read_outcome \<times> app_state" where
  "handleRead s doc =
     (case boundDeviceId doc of
        Some b \<Rightarrow>
          if b \<noteq> [] \<and> b \<noteq> deviceId (app_user s) then (Read_Denied b (deviceId (app_user s)), s)
          else (Read_Opened, s\<lparr>currentReadingDoc := Some doc\<rparr>)
      | None \<Rightarrow> (Read_Opened, s\<lparr>currentReadingDoc := Some doc\<rparr>))"

text \<open>
  The binding of a document id in a catalogue: the \<open>boundDeviceId\<close> of the first
  entry with that id, the view of the catalogue the licensing contract speaks of.
\<close>

definition binding_of :: "document_item list \<Rightarrow> doc_id \<Rightarrow> device_id option" where
  "binding_of docs i = (case find_key doc_id i docs of None \<Rightarrow> None | Some d \<Rightarrow> boundDeviceId d)"

text \<open>
  Sessions for the scenarios of the specification (section 8): a member logged
  in on device \<open>DEV-AAAA\<close> with 500 credits, the same member with 50
  credits, and a member on device \<open>DEV-BBBB\<close> facing a document bound to
  \<open>DEV-AAAA\<close>.
\<close>

definition member_session :: app_state where
  "member_session = handleLogin initial_state ''test123@'' ''DEV-AAAA''"

definition poor_session :: app_state where
  "poor_session = member_session\<lparr>app_user := (app_user member_session)\<lparr>balance := 50\<rparr>\<rparr>"

definition other_device_session :: app_state where
  "other_device_session = handleLogin initial_state ''test123@'' ''DEV-BBBB''"

definition doc_bound_elsewhere :: document_item where
  "doc_bound_elsewhere = (MOCK_DOCS ! 1)\<lparr>boundDeviceId := Some ''DEV-AAAA''\<rparr>"

section \<open>Lemmas\<close>

lemmas licensing_defs [handler_simps] =
  handleLogin_def handleBuy_def handleUpload_def handleRead_def
  buy_user_update_def bind_documents_def upload_document_def

lemma bind_documents_ids [simp]: "map doc_id (bind_documents docs i dev) = map doc_id docs"
  by (simp add: bind_documents_def map_where_map_key)

lemma binding_of_bind_documents:
  "binding_of (bind_documents docs i dev) j =
     (if j = i \<and> i \<in> doc_id ` set docs then Some dev else binding_of docs j)"
  by (auto simp: binding_of_def bind_documents_def find_key_map_where find_key_None_iff
      dest: find_key_SomeD split: option.split)

lemma binding_of_Cons [simp]:
  "binding_of (d # docs) j = (if doc_id d = j then boundDeviceId d else binding_of docs j)"
  by (simp add: binding_of_def)

lemma handleBuy_cases:
  obtains (owned) "doc_id doc \<in> set (library (app_user s))" "handleBuy s doc c = (Buy_AlreadyOwned, s)"
  | (poor) "doc_id doc \<notin> set (library (app_user s))" "balance (app_user s) < price doc"
      "handleBuy s doc c = (Buy_InsufficientBalance, s)"
  | (declined) "doc_id doc \<notin> set (library (app_user s))" "\<not> balance (app_user s) < price doc" "\<not> c"
      "handleBuy s doc c = (Buy_Declined, s)"
  | (completed) "doc_id doc \<notin> set (library (app_user s))" "\<not> balance (app_user s) < price doc" "c"
      "handleBuy s doc c = (Buy_Completed,
         s\<lparr>app_user := buy_user_update (app_user s) doc,
           documents := bind_documents (documents s) (doc_id doc) (deviceId (app_user s)),
           view := LIBRARY\<rparr>)"
  by (cases "doc_id doc \<in> set (library (app_user s))"; cases "balance (app_user s) < price doc"; cases c)
     (simp_all add: handleBuy_def Let_def)

lemmas session_defs =
  member_session_def poor_session_def other_device_session_def doc_bound_elsewhere_def
  initial_state_def handleLogin_def login_profile_def MOCK_DOCS_def guest_user_def

section \<open>Properties of the handlers\<close>

text \<open>
  C1 (error).  \<open>handleBuy\<close> completes exactly when the document is not yet in
  the library, the balance covers the price and the user consents; on every
  other outcome (already owned, insufficient balance, declined confirmation)
  the whole state, account and catalogue alike, is left as it was.
\<close>

theorem handleBuy_atomic:
  "(fst (handleBuy s doc c) = Buy_Completed \<longleftrightarrow>
      doc_id doc \<notin> set (library (app_user s)) \<and> price doc \<le> balance (app_user s) \<and> c)
   \<and> (fst (handleBuy s doc c) \<noteq> Buy_Completed \<longrightarrow> snd (handleBuy s doc c) = s)"
  by (rule handleBuy_cases [where s = s and doc = doc and c = c]) auto

theorem handleBuy_atomic_witness:
  "fst (handleBuy poor_session (MOCK_DOCS ! 1) True) = Buy_InsufficientBalance
   \<and> fst (handleBuy poor_session (MOCK_DOCS ! 1) True) \<noteq> Buy_Completed
   \<and> snd (handleBuy poor_session (MOCK_DOCS ! 1) True) = poor_session"
proof -
  have h: "fst (handleBuy poor_session (MOCK_DOCS ! 1) True) = Buy_InsufficientBalance"
    by (simp add: handleBuy_def session_defs)
  then show ?thesis using handleBuy_atomic [of poor_session "MOCK_DOCS ! 1" True] by simp
qed

text \<open>
  C2 (functional).  A purchase that passes the guards debits the price, never
  below zero, appends the document to the library, keeps the device, keeps the
  catalogue's ids, binds the document's id to the buyer's device when the
  catalogue holds it and changes no other binding, and shows the library.
\<close>

theorem handleBuy_completed:
  assumes "doc_id doc \<notin> set (library (app_user s))" "price doc \<le> balance (app_user s)"
  defines "s' \<equiv> snd (handleBuy s doc True)"
  shows "fst (handleBuy s doc True) = Buy_Completed
    \<and> balance (app_user s') = balance (app_user s) - price doc \<and> 0 \<le> balance (app_user s')
    \<and> library (app_user s') = library (app_user s) @ [doc_id doc]
    \<and> deviceId (app_user s') = deviceId (app_user s)
    \<and> map doc_id (documents s') = map doc_id (documents s)
    \<and> (\<forall>j. binding_of (documents s') j =
          (if j = doc_id doc \<and> doc_id doc \<in> doc_id ` set (documents s)
           then Some (deviceId (app_user s)) else binding_of (documents s) j))
    \<and> view s' = LIBRARY"
  unfolding s'_def using assms
  by (auto simp: handleBuy_def Let_def buy_user_update_def binding_of_bind_documents)

theorem handleBuy_completed_witness:
  "doc_id (MOCK_DOCS ! 1) \<notin> set (library (app_user member_session))
   \<and> price (MOCK_DOCS ! 1) \<le> balance (app_user member_session)
   \<and> fst (handleBuy member_session (MOCK_DOCS ! 1) True) = Buy_Completed
   \<and> balance (app_user (snd (handleBuy member_session (MOCK_DOCS ! 1) True))) = 420
   \<and> library (app_user (snd (handleBuy member_session (MOCK_DOCS ! 1) True))) = [''2'']
   \<and> binding_of (documents (snd (handleBuy member_session (MOCK_DOCS ! 1) True))) ''2''
       = Some ''DEV-AAAA''"
proof -
  have h1: "doc_id (MOCK_DOCS ! 1) \<notin> set (library (app_user member_session))"
    by (simp add: session_defs)
  have h2: "price (MOCK_DOCS ! 1) \<le> balance (app_user member_session)"
    by (simp add: session_defs)
  show ?thesis using h1 h2 handleBuy_completed [OF h1 h2]
    by (simp add: session_defs)
qed

text \<open>
  C6 (equivalence).  The check \<open>handleRead\<close> performs inline opens the reader
  exactly when \<open>verifyDeviceBinding\<close> allows; an opened read sets the
  document being read and nothing else; a denial names the document's bound
  device and the current device and changes nothing.
\<close>

theorem handleRead_gate:
  "(fst (handleRead s doc) = Read_Opened \<longleftrightarrow> verifyDeviceBinding doc (deviceId (app_user s)))
   \<and> (fst (handleRead s doc) = Read_Opened \<longrightarrow> snd (handleRead s doc) = s\<lparr>currentReadingDoc := Some doc\<rparr>)
   \<and> (\<forall>b r. fst (handleRead s doc) = Read_Denied b r \<longrightarrow>
        boundDeviceId doc = Some b \<and> r = deviceId (app_user s) \<and> snd (handleRead s doc) = s)"
  by (auto simp: handleRead_def verifyDeviceBinding_iff split: option.splits)

theorem handleRead_gate_witness:
  "fst (handleRead other_device_session doc_bound_elsewhere) = Read_Denied ''DEV-AAAA'' ''DEV-BBBB''
   \<and> \<not> verifyDeviceBinding doc_bound_elsewhere ''DEV-BBBB''
   \<and> snd (handleRead other_device_session doc_bound_elsewhere) = other_device_session"
proof -
  have h: "fst (handleRead other_device_session doc_bound_elsewhere) = Read_Denied ''DEV-AAAA'' ''DEV-BBBB''"
    by (simp add: handleRead_def session_defs)
  show ?thesis
    using h handleRead_gate [of other_device_session doc_bound_elsewhere]
    by (simp add: session_defs)
qed

end
