(* ===== verification/Marketplace.thy ===== *)
theory Marketplace
  imports Access_Gate
begin

text \<open>
  The catalogue views of \<open>src/components/Marketplace.tsx\<close>: the documents a
  view shows (\<open>displayDocs\<close>, lines 14--16) and the quick export of the
  library view (\<open>handleQuickDownload\<close>, lines 18--36).  The market view lists
  the documents the user does not own, each with a buy button; the library view
  lists the owned ones, each with a read and a quick-download button.  The
  quick export guards itself with the same inline test as \<open>handleRead\<close>; its
  effect is the file it hands to the browser, modelled as a name and a content.
\<close>

definition displayDocs :: "document_item list \<Rightarrow> user \<Rightarrow> bool \<Rightarrow> document_item list" where
  "displayDocs docs u isLibrary =
     (if isLibrary then filter (\<lambda>d. doc_id d \<in> set (library u)) docs
      else filter (\<lambda>d. doc_id d \<notin> set (library u)) docs)"

record download_file =
  file_name :: string
  file_content :: string

datatype quick_download_outcome = QD_Denied | QD_Saved download_file

text \<open>Line 27: the exported text, and line 32: the file name.\<close>

definition quick_download_file :: "user \<Rightarrow> document_item \<Rightarrow> download_file" where
  "quick_download_file u doc =
     \<lparr>file_name = title doc @ ''_SECURE.txt'',
      file_content = ''SECURE DOWNLOAD'' @ newline @ ''User: '' @ user_name u @ newline
        @ ''Device: '' @ deviceId u @ newline @ newline @ ''Title: '' @ title doc @ newline
        @ ''Description: '' @ description doc\<rparr>"

definition handleQuickDownload :: "user \<Rightarrow> document_item \<Rightarrow> quick_download_outcome" where
  "handleQuickDownload u doc =
     (case boundDeviceId doc of
        Some b \<Rightarrow> if b \<noteq> [] \<and> b \<noteq> deviceId u then QD_Denied else QD_Saved (quick_download_file u doc)
      | None \<Rightarrow> QD_Saved (quick_download_file u doc))"

section \<open>Lemmas\<close>

lemma displayDocs_library_iff [simp]:
  "d \<in> set (displayDocs docs u True) \<longleftrightarrow> d \<in> set docs \<and> doc_id d \<in> set (library u)"
  by (simp add: displayDocs_def)

lemma displayDocs_market_iff [simp]:
  "d \<in> set (displayDocs docs u False) \<longleftrightarrow> d \<in> set docs \<and> doc_id d \<notin> set (library u)"
  by (simp add: displayDocs_def)

lemma handleQuickDownload_allowed_iff:
  "handleQuickDownload u doc \<noteq> QD_Denied \<longleftrightarrow> verifyDeviceBinding doc (deviceId u)"
  by (auto simp: handleQuickDownload_def verifyDeviceBinding_iff split: option.split)

end
