(* ===== verification/Upload_Form.thy ===== *)
theory Upload_Form
  imports Store_Types
begin

text \<open>
  The publishing form, \<open>src/components/UploadModal.tsx\<close>, and the fallback
  answer of the AI helper, \<open>analyzeDocument\<close> in
  \<open>src/services/geminiService.ts\<close>.

  The form keeps its fields in state hooks (lines 11--16).  \<open>handleAIAnalyze\<close>
  (lines 18--25) returns early unless title and description are non-empty,
  marks the form as analysing, awaits the helper and then overwrites the
  summary, the tags and the price with the helper's answer; the await splits
  it into a start and a finish step.  The helper's answer is untrusted input
  (a record \<open>ai_result\<close>); on any failure it is the constant fallback of lines
  50--54.  Submission goes through the browser's constraint validation first:
  the title input and the description textarea are \<open>required\<close> (lines 55
  and 67) and the price input has \<open>min="0"\<close> (line 116), so \<open>handleSubmit\<close>
  (lines 27--38) runs only on a form that satisfies them; the model returns
  \<open>None\<close> where the browser blocks the submit event and otherwise the payload
  handed to \<open>onUpload\<close>.
\<close>

record ai_data =
  ai_summary :: string
  ai_tags :: "string list"

record upload_form =
  f_title :: string
  f_description :: string
  f_price :: int
  f_type :: doc_type
  f_isAnalyzing :: bool
  f_aiData :: "ai_data option"

record ai_result =
  r_summary :: string
  r_suggestedTags :: "string list"
  r_suggestedPrice :: int

definition initial_upload_form :: upload_form where
  "initial_upload_form =
     \<lparr>f_title = [], f_description = [], f_price = 0, f_type = NOTES, f_isAnalyzing = False,
      f_aiData = None\<rparr>"

text \<open>\<open>analyzeDocument\<close>'s answer when the model call fails (lines 48--55).\<close>

definition analyze_fallback :: ai_result where
  "analyze_fallback =
     \<lparr>r_summary = ''Tai lieu hoc tap huu ich cho ban.'', r_suggestedTags = [''#TaiLieu'', ''#HocTap''],
      r_suggestedPrice = 50\<rparr>"

definition handleAIAnalyze_start :: "upload_form \<Rightarrow> upload_form option" where
  "handleAIAnalyze_start f =
     (if f_title f = [] \<or> f_description f = [] then None
      else Some (f\<lparr>f_isAnalyzing := True\<rparr>))"

definition handleAIAnalyze_finish :: "upload_form \<Rightarrow> ai_result \<Rightarrow> upload_form" where
  "handleAIAnalyze_finish f r =
     f\<lparr>f_aiData := Some \<lparr>ai_summary = r_summary r, ai_tags = r_suggestedTags r\<rparr>,
       f_price := r_suggestedPrice r, f_isAnalyzing := False\<rparr>"

definition form_constraints_ok :: "upload_form \<Rightarrow> bool" where
  "form_constraints_ok f \<longleftrightarrow> f_title f \<noteq> [] \<and> f_description f \<noteq> [] \<and> 0 \<le> f_price f"

definition handleSubmit :: "upload_form \<Rightarrow> upload_data option" where
  "handleSubmit f =
     (if \<not> form_constraints_ok f then None
      else Some \<lparr>up_title = f_title f, up_description = f_description f, up_price = f_price f,
                 up_type = f_type f,
                 up_tags = (case f_aiData f of None \<Rightarrow> [] | Some a \<Rightarrow> ai_tags a),
                 up_aiSummary = (case f_aiData f of None \<Rightarrow> [] | Some a \<Rightarrow> ai_summary a),
                 up_thumbnailUrl = ''https://picsum.photos/seed/'' @ f_title f @ ''/400/300''\<rparr>)"

text \<open>A filled-in form for the witnesses.\<close>

definition sample_form :: upload_form where
  "sample_form = initial_upload_form\<lparr>f_title := ''Triet hoc'', f_description := ''De cuong on tap''\<rparr>"

section \<open>Lemmas\<close>

lemma handleSubmit_SomeD:
  "handleSubmit f = Some d \<Longrightarrow> form_constraints_ok f \<and> up_title d = f_title f
    \<and> up_description d = f_description f \<and> up_price d = f_price f \<and> up_type d = f_type f"
  by (auto simp: handleSubmit_def split: if_splits)

section \<open>Properties of the form\<close>

text \<open>
  C20 (safety).  Every payload the form hands to \<open>onUpload\<close> has a non-empty
  title and description and a price of at least zero, carries the form's title,
  description, price and document type unchanged with a thumbnail seeded by the
  title, and carries the tags and summary of the finished analysis, or none
  and an empty summary when no analysis finished; a negative price suggested by
  the helper blocks the submission until the user corrects it.
\<close>

theorem handleSubmit_payload:
  "(handleSubmit f = Some d \<longrightarrow>
      up_title d \<noteq> [] \<and> up_description d \<noteq> [] \<and> 0 \<le> up_price d
      \<and> up_title d = f_title f \<and> up_description d = f_description f \<and> up_price d = f_price f
      \<and> up_type d = f_type f \<and> up_thumbnailUrl d = ''https://picsum.photos/seed/'' @ f_title f @ ''/400/300''
      \<and> (f_aiData f = None \<longrightarrow> up_tags d = [] \<and> up_aiSummary d = [])
      \<and> (\<forall>a. f_aiData f = Some a \<longrightarrow> up_tags d = ai_tags a \<and> up_aiSummary d = ai_summary a))
   \<and> (r_suggestedPrice r < 0 \<longrightarrow> handleSubmit (handleAIAnalyze_finish f r) = None)"
  by (auto simp: handleSubmit_def form_constraints_ok_def handleAIAnalyze_finish_def split: if_splits)

theorem handleSubmit_payload_witness:
  "handleSubmit (handleAIAnalyze_finish sample_form analyze_fallback) =
     Some \<lparr>up_title = ''Triet hoc'', up_description = ''De cuong on tap'', up_price = 50,
           up_type = NOTES, up_tags = [''#TaiLieu'', ''#HocTap''],
           up_aiSummary = ''Tai lieu hoc tap huu ich cho ban.'',
           up_thumbnailUrl = ''https://picsum.photos/seed/Triet hoc/400/300''\<rparr>
   \<and> r_suggestedPrice (analyze_fallback\<lparr>r_suggestedPrice := -5\<rparr>) < 0
   \<and> handleSubmit (handleAIAnalyze_finish sample_form (analyze_fallback\<lparr>r_suggestedPrice := -5\<rparr>)) = None"
proof -
  let ?d = "\<lparr>up_title = ''Triet hoc'', up_description = ''De cuong on tap'', up_price = 50,
           up_type = NOTES, up_tags = [''#TaiLieu'', ''#HocTap''],
           up_aiSummary = ''Tai lieu hoc tap huu ich cho ban.'',
           up_thumbnailUrl = ''https://picsum.photos/seed/Triet hoc/400/300''\<rparr>"
  have h: "handleSubmit (handleAIAnalyze_finish sample_form analyze_fallback) = Some ?d"
    by (simp add: handleSubmit_def handleAIAnalyze_finish_def sample_form_def initial_upload_form_def
        analyze_fallback_def form_constraints_ok_def)
  have n: "r_suggestedPrice (analyze_fallback\<lparr>r_suggestedPrice := -5\<rparr>) < 0" by simp
  show ?thesis
    using h n handleSubmit_payload [of "handleAIAnalyze_finish sample_form analyze_fallback" ?d
        "analyze_fallback\<lparr>r_suggestedPrice := -5\<rparr>"]
      handleSubmit_payload [of sample_form ?d "analyze_fallback\<lparr>r_suggestedPrice := -5\<rparr>"]
    by simp
qed

end
