(* ===== verification/Device_Id.thy ===== *)
theory Device_Id
  imports Prelude "HOL-Library.While_Combinator"
begin

text \<open>
  The device identity provider, \<open>getDeviceId\<close> of \<open>src/utils/security.ts\<close>
  (lines 3--25).  It reads \<open>secure_device_id\<close> from \<open>localStorage\<close>; when that
  is missing or empty it builds a fingerprint string from the user agent, the
  screen resolution and a random seed, hashes it with the 31-multiplier rolling
  hash in 32-bit signed arithmetic, formats \<open>DEV-\<close> and the upper-case
  hexadecimal of the hash's absolute value, stores it and returns it.

  \<^item> The browser inputs (\<open>navigator.userAgent\<close>, \<open>window.screen\<close>, the random
    seed \<open>Math.random().toString(36).substring(2, 15)\<close>) are a record
    \<open>device_env\<close>; \<open>localStorage\<close> is a map from keys to strings.
  \<^item> The hash loop is modelled twice: \<open>hash_loop\<close> follows the JavaScript
    evaluation on unbounded integers with \<open>ToInt32\<close> written out, and
    \<open>hash_w\<close> computes on \<open>32 word\<close>; they agree (\<open>hash_loop_word\<close>), and
    both compute the polynomial hash \<open>poly_hash\<close> reduced to signed 32 bits.
  \<^item> \<open>charCodeAt\<close> reads UTF-16 code units; characters here are bytes, which
    is the same for the ASCII strings a fingerprint is made of.
\<close>

section \<open>Number formatting: \<open>Number.prototype.toString(radix)\<close>\<close>

text \<open>
  The digits of a non-negative integer in base \<open>b\<close>, most significant first;
  a radix below 2 is a \<open>RangeError\<close> in JavaScript and is never used here.
\<close>

fun radix_digits :: "nat \<Rightarrow> nat \<Rightarrow> nat list" where
  "radix_digits b n = (if n < b \<or> b < 2 then [n] else radix_digits b (n div b) @ [n mod b])"

declare radix_digits.simps [simp del]

definition js_digit_char :: "nat \<Rightarrow> char" where
  "js_digit_char d = char_of (if d < 10 then 48 + d else 87 + d)"

definition js_to_string_radix :: "nat \<Rightarrow> nat \<Rightarrow> string" where
  "js_to_string_radix b n = map js_digit_char (radix_digits b n)"

text \<open>\<open>String.prototype.toUpperCase\<close> on the ASCII letters.\<close>

definition js_upper_char :: "char \<Rightarrow> char" where
  "js_upper_char c =
     (if 97 \<le> (of_char c :: nat) \<and> (of_char c :: nat) \<le> 122 then char_of ((of_char c :: nat) - 32) else c)"

definition js_to_upper :: "string \<Rightarrow> string" where
  "js_to_upper s = map js_upper_char s"

section \<open>The rolling hash\<close>

text \<open>
  \<open>ToInt32\<close> of an integral number, and \<open>x << n\<close> for an int32 \<open>x\<close> and
  \<open>n < 32\<close>: the product taken back to the signed 32-bit range.
\<close>

definition js_to_int32 :: "int \<Rightarrow> int" where
  "js_to_int32 x = sint (word_of_int x :: 32 word)"

definition js_shl :: "int \<Rightarrow> nat \<Rightarrow> int" where
  "js_shl x n = js_to_int32 (x * 2 ^ n)"

text \<open>
  Lines 13--18: \<open>hash = (hash << 5) - hash + char; hash |= 0\<close> for each
  character, starting from 0.
\<close>

fun hash_loop :: "int \<Rightarrow> string \<Rightarrow> int" where
  "hash_loop h [] = h"
| "hash_loop h (c # cs) = hash_loop (js_to_int32 (js_shl h 5 - h + int (of_char c))) cs"

definition simple_hash :: "string \<Rightarrow> int" where
  "simple_hash s = hash_loop 0 s"

text \<open>
  The loop as written, \<open>for (let i = 0; i < rawString.length; i++)\<close>: a
  \<open>while_option\<close> on the pair of the counter and the accumulator, whose
  result is \<open>None\<close> if the loop never stops.
\<close>

definition hash_for :: "string \<Rightarrow> (nat \<times> int) option" where
  "hash_for raw =
     while_option (\<lambda>(i, h). i < length raw)
       (\<lambda>(i, h). (Suc i, js_to_int32 (js_shl h 5 - h + int (of_char (raw ! i))))) (0, 0)"

text \<open>The same loop on 32-bit words, and the polynomial it computes.\<close>

fun hash_w :: "32 word \<Rightarrow> string \<Rightarrow> 32 word" where
  "hash_w h [] = h"
| "hash_w h (c # cs) = hash_w (push_bit 5 h - h + of_nat (of_char c)) cs"

fun poly_hash :: "int \<Rightarrow> string \<Rightarrow> int" where
  "poly_hash a [] = a"
| "poly_hash a (c # cs) = poly_hash (31 * a + int (of_char c)) cs"

section \<open>The identifier and its storage\<close>

text \<open>Line 20: \<open>DEV-\<close> and \<open>Math.abs(hash).toString(16).toUpperCase()\<close>.\<close>

definition device_id_of_hash :: "int \<Rightarrow> device_id" where
  "device_id_of_hash h = ''DEV-'' @ js_to_upper (js_to_string_radix 16 (nat \<bar>h\<bar>))"

record device_env =
  userAgent :: string
  screen_width :: nat
  screen_height :: nat
  random_seed :: string

text \<open>Lines 7--10: the raw fingerprint string.\<close>

definition raw_fingerprint :: "device_env \<Rightarrow> string" where
  "raw_fingerprint e =
     userAgent e @ ''-'' @ js_to_string_radix 10 (screen_width e) @ ''x''
       @ js_to_string_radix 10 (screen_height e) @ ''-'' @ random_seed e"

type_synonym local_storage = "string \<rightharpoonup> string"

definition device_storage_key :: string where
  "device_storage_key = ''secure_device_id''"

text \<open>Lines 7--21: the branch that creates, stores and returns a new identifier.\<close>

definition fresh_device_id :: "local_storage \<Rightarrow> device_env \<Rightarrow> device_id \<times> local_storage" where
  "fresh_device_id st e =
     (let d = device_id_of_hash (simple_hash (raw_fingerprint e))
      in (d, st(device_storage_key \<mapsto> d)))"

text \<open>Lines 3--25: \<open>if (!deviceId)\<close> regenerates on a missing or empty entry.\<close>

definition getDeviceId :: "local_storage \<Rightarrow> device_env \<Rightarrow> device_id \<times> local_storage" where
  "getDeviceId st e =
     (case st device_storage_key of
        Some d \<Rightarrow> if d \<noteq> [] then (d, st) else fresh_device_id st e
      | None \<Rightarrow> fresh_device_id st e)"

text \<open>
  The characters \<open>0\<close>--\<open>9\<close> and \<open>A\<close>--\<open>F\<close>, and reading an upper-case hexadecimal string back, the inverse of the formatting
  used for the roundtrip lemmas (no source function parses identifiers).
\<close>

definition hex_digit_value :: "char \<Rightarrow> nat" where
  "hex_digit_value c = (if (of_char c :: nat) \<le> 57 then of_char c - 48 else of_char c - 55)"

definition parse_hex :: "string \<Rightarrow> nat" where
  "parse_hex s = foldl (\<lambda>acc c. 16 * acc + hex_digit_value c) 0 s"

definition upper_hex_chars :: "char set" where
  "upper_hex_chars =
     {c. (48 \<le> (of_char c :: nat) \<and> (of_char c :: nat) \<le> 57) \<or> (65 \<le> (of_char c :: nat) \<and> (of_char c :: nat) \<le> 70)}"

text \<open>
  Successive calls, as each mount of the login screen makes one (the
  \<open>useEffect\<close> of \<open>src/components/Login.tsx\<close>, line 17): the identifiers
  returned and the final storage.
\<close>

fun getDeviceId_calls :: "local_storage \<Rightarrow> device_env list \<Rightarrow> device_id list \<times> local_storage" where
  "getDeviceId_calls st [] = ([], st)"
| "getDeviceId_calls st (e # es) =
     (let (d, st') = getDeviceId st e; (ds, st'') = getDeviceId_calls st' es in (d # ds, st''))"

text \<open>
  Witness input: a browser environment with a fixed user agent, resolution and
  random seed.
\<close>

definition sample_env :: device_env where
  "sample_env = \<lparr>userAgent = ''Mozilla/5.0'', screen_width = 1920, screen_height = 1080,
                  random_seed = ''k3j5h2m1''\<rparr>"

section \<open>Lemmas\<close>

subsection \<open>Digits\<close>

lemma radix_digits_unfold:
  "radix_digits b n = (if n < b \<or> b < 2 then [n] else radix_digits b (n div b) @ [n mod b])"
  by (rule radix_digits.simps)

lemma radix_digits_ne: "radix_digits b n \<noteq> []"
  by (subst radix_digits_unfold) simp

lemma radix_digits_less:
  "1 < b \<Longrightarrow> d \<in> set (radix_digits b n) \<Longrightarrow> d < b"
proof (induction b n rule: radix_digits.induct)
  case (1 b n)
  show ?case
  proof (cases "n < b \<or> b < 2")
    case True
    with "1.prems" have "n < b" by arith
    with "1.prems" show ?thesis by (simp add: radix_digits_unfold [of b n])
  next
    case False
    with "1.prems" "1.IH" show ?thesis
      by (auto simp: radix_digits_unfold [of b n])
  qed
qed

lemma radix_digits_value:
  assumes "1 < b"
  shows "foldl (\<lambda>acc d. b * acc + d) 0 (radix_digits b n) = n"
proof (induction b n rule: radix_digits.induct)
  case (1 b n)
  show ?case
  proof (cases "n < b \<or> b < 2")
    case True
    then show ?thesis by (simp add: radix_digits_unfold [of b n])
  next
    case False
    with "1.IH" show ?thesis
      by (simp add: radix_digits_unfold [of b n])
  qed
qed

lemma radix_digits_length:
  assumes "1 < b" "n < b ^ Suc k"
  shows "length (radix_digits b n) \<le> Suc k"
  using assms(2)
proof (induction b n arbitrary: k rule: radix_digits.induct)
  case (1 b n)
  show ?case
  proof (cases "n < b \<or> b < 2")
    case True
    then show ?thesis by (simp add: radix_digits_unfold [of b n])
  next
    case False
    then obtain k' where k: "k = Suc k'"
      using "1.prems" by (cases k) auto
    from "1.prems" k assms(1) have "n div b < b ^ Suc k'"
      by (simp add: less_mult_imp_div_less mult.commute)
    with "1.IH" False have "length (radix_digits b (n div b)) \<le> Suc k'"
      by blast
    with False k show ?thesis by (simp add: radix_digits_unfold [of b n])
  qed
qed

subsection \<open>Hexadecimal characters\<close>

lemma of_char_js_digit_char:
  "d < 16 \<Longrightarrow> (of_char (js_digit_char d) :: nat) = (if d < 10 then 48 + d else 87 + d)"
  by (simp add: js_digit_char_def)

lemma hex_digit_facts:
  assumes "d < 16"
  shows "js_upper_char (js_digit_char d) \<in> upper_hex_chars
    \<and> hex_digit_value (js_upper_char (js_digit_char d)) = d"
proof (cases "d < 10")
  case True
  with assms have c: "(of_char (js_digit_char d) :: nat) = 48 + d"
    by (simp add: of_char_js_digit_char)
  with True have "js_upper_char (js_digit_char d) = js_digit_char d"
    by (simp add: js_upper_char_def)
  with c True show ?thesis
    by (simp add: upper_hex_chars_def hex_digit_value_def)
next
  case False
  with assms have c: "(of_char (js_digit_char d) :: nat) = 87 + d"
    by (simp add: of_char_js_digit_char)
  with False assms have u: "(of_char (js_upper_char (js_digit_char d)) :: nat) = 55 + d"
    by (simp add: js_upper_char_def)
  with False assms show ?thesis
    by (simp add: upper_hex_chars_def hex_digit_value_def)
qed

subsection \<open>The hash\<close>

text \<open>\<open>js_to_int32\<close> is ECMAScript's \<open>ToInt32\<close> on integers (ECMA-262, 7.1.6).\<close>

lemma js_to_int32_ecma: "js_to_int32 x = (x + 2 ^ 31) mod 2 ^ 32 - 2 ^ 31"
  by (simp add: js_to_int32_def sint_sbintrunc' signed_take_bit_eq_take_bit_shift take_bit_eq_mod)

lemma js_hash_step_word:
  "js_to_int32 (js_shl (sint w) 5 - sint w + int n) = sint (push_bit 5 w - w + of_nat n :: 32 word)"
  by (simp add: js_to_int32_def js_shl_def push_bit_eq_mult)

lemma hash_loop_word: "hash_loop (sint w) s = sint (hash_w w s)"
proof (induction s arbitrary: w)
  case Nil
  then show ?case by simp
next
  case (Cons c cs)
  have "hash_loop (sint w) (c # cs) = hash_loop (sint (push_bit 5 w - w + of_nat (of_char c))) cs"
    using js_hash_step_word [of w "of_char c"] by simp
  also have "\<dots> = sint (hash_w w (c # cs))"
    using Cons.IH by simp
  finally show ?case .
qed

lemma hash_w_poly: "hash_w (word_of_int a) s = word_of_int (poly_hash a s)"
proof (induction s arbitrary: a)
  case Nil
  then show ?case by simp
next
  case (Cons c cs)
  have step: "push_bit 5 (word_of_int a) - word_of_int a + of_nat (of_char c)
      = (word_of_int (31 * a + int (of_char c)) :: 32 word)"
    by (simp add: push_bit_eq_mult algebra_simps)
  show ?case
    by (simp only: hash_w.simps poly_hash.simps step Cons.IH)
qed

text \<open>
  The loop of the source computes the polynomial hash
  \<open>s\<^sub>0 * 31\<^sup>n\<^sup>-\<^sup>1 + \<dots> + s\<^sub>n\<^sub>-\<^sub>1\<close> reduced to a signed 32-bit value.
\<close>

lemma simple_hash_poly: "simple_hash s = sint (word_of_int (poly_hash 0 s) :: 32 word)"
  using hash_loop_word [of 0 s] hash_w_poly [of 0 s] by (simp add: simple_hash_def)

lemma poly_hash_snoc: "poly_hash a (s @ [c]) = 31 * poly_hash a s + int (of_char c)"
  by (induction s arbitrary: a) simp_all

lemma simple_hash_range: "- (2 ^ 31) \<le> simple_hash s \<and> simple_hash s < 2 ^ 31"
  by (simp only: simple_hash_poly sint_32_bounds)

text \<open>From any counter value the loop runs to the end of the string, folding the rest.\<close>

lemma hash_for_from:
  assumes "i \<le> length raw"
  shows "while_option (\<lambda>(i, h). i < length raw)
       (\<lambda>(i, h). (Suc i, js_to_int32 (js_shl h 5 - h + int (of_char (raw ! i))))) (i, h)
     = Some (length raw, hash_loop h (drop i raw))"
  using assms
proof (induction "length raw - i" arbitrary: i h)
  case 0
  then show ?case by (simp add: while_option_unfold [of _ _ "(i, h)"])
next
  case (Suc n)
  then have i: "i < length raw" by arith
  then have d: "drop i raw = raw ! i # drop (Suc i) raw" by (rule Cons_nth_drop_Suc [symmetric])
  have "n = length raw - Suc i" "Suc i \<le> length raw" using Suc.hyps(2) i by arith+
  note IH = Suc.hyps(1) [OF this]
  show ?case using i by (simp add: while_option_unfold [of _ _ "(i, h)"] IH d)
qed

subsection \<open>Hexadecimal strings\<close>

lemma parse_hex_digits:
  "\<forall>d\<in>set ds. d < 16 \<Longrightarrow>
    foldl (\<lambda>acc c. 16 * acc + hex_digit_value c) a (map (js_upper_char \<circ> js_digit_char) ds)
    = foldl (\<lambda>acc d. 16 * acc + d) a ds"
  by (induction ds arbitrary: a) (simp_all add: hex_digit_facts)

lemma hex_string_facts:
  "set (js_to_upper (js_to_string_radix 16 n)) \<subseteq> upper_hex_chars
    \<and> parse_hex (js_to_upper (js_to_string_radix 16 n)) = n"
proof -
  have lt: "\<forall>d\<in>set (radix_digits 16 n). d < 16"
    using radix_digits_less [of 16] by auto
  then have "set (js_to_upper (js_to_string_radix 16 n)) \<subseteq> upper_hex_chars"
    by (auto simp: js_to_upper_def js_to_string_radix_def hex_digit_facts)
  moreover have "parse_hex (js_to_upper (js_to_string_radix 16 n)) = n"
    using parse_hex_digits [OF lt, of 0] radix_digits_value [of 16 n]
    by (simp add: parse_hex_def js_to_upper_def js_to_string_radix_def)
  ultimately show ?thesis by blast
qed

lemma hex_string_length:
  "n < 16 ^ Suc k \<Longrightarrow> length (js_to_upper (js_to_string_radix 16 n)) \<le> Suc k"
  using radix_digits_length [of 16 n k] by (simp add: js_to_upper_def js_to_string_radix_def)

subsection \<open>The identifier\<close>

lemma device_id_of_hash_parts:
  "take 4 (device_id_of_hash h) = ''DEV-''
    \<and> parse_hex (drop 4 (device_id_of_hash h)) = nat \<bar>h\<bar>"
  by (simp add: device_id_of_hash_def hex_string_facts)

lemma device_id_of_hash_ne: "device_id_of_hash h \<noteq> []"
  by (simp add: device_id_of_hash_def)

lemma device_id_of_hash_eq_iff:
  "device_id_of_hash a = device_id_of_hash b \<longleftrightarrow> \<bar>a\<bar> = \<bar>b\<bar>"
proof
  assume "device_id_of_hash a = device_id_of_hash b"
  then have "nat \<bar>a\<bar> = nat \<bar>b\<bar>"
    using device_id_of_hash_parts [of a] device_id_of_hash_parts [of b] by metis
  then show "\<bar>a\<bar> = \<bar>b\<bar>" by simp
next
  assume "\<bar>a\<bar> = \<bar>b\<bar>"
  then show "device_id_of_hash a = device_id_of_hash b"
    by (simp add: device_id_of_hash_def)
qed

lemma device_id_of_hash_format:
  assumes "\<bar>h\<bar> \<le> 2 ^ 31"
  shows "\<exists>hex. device_id_of_hash h = ''DEV-'' @ hex \<and> hex \<noteq> [] \<and> length hex \<le> 8
           \<and> set hex \<subseteq> upper_hex_chars"
proof -
  let ?hex = "js_to_upper (js_to_string_radix 16 (nat \<bar>h\<bar>))"
  from assms have "nat \<bar>h\<bar> < 16 ^ Suc 7" by (simp add: nat_le_iff)
  then have "length ?hex \<le> 8" using hex_string_length [of "nat \<bar>h\<bar>" 7] by simp
  moreover have "?hex \<noteq> []"
    by (simp add: js_to_upper_def js_to_string_radix_def radix_digits_ne)
  ultimately show ?thesis
    using hex_string_facts [of "nat \<bar>h\<bar>"] by (auto simp: device_id_of_hash_def)
qed

subsection \<open>Storage\<close>

lemma fresh_device_id_ne: "fst (fresh_device_id st e) \<noteq> []"
  by (simp add: fresh_device_id_def Let_def device_id_of_hash_ne)

lemma getDeviceId_ne: "fst (getDeviceId st e) \<noteq> []"
  by (simp add: getDeviceId_def fresh_device_id_ne split: option.split)

lemma getDeviceId_storage:
  "snd (getDeviceId st e) = st(device_storage_key \<mapsto> fst (getDeviceId st e))"
  by (auto simp: getDeviceId_def fresh_device_id_def Let_def split: option.split)

lemma getDeviceId_stored:
  "st device_storage_key = Some d \<Longrightarrow> d \<noteq> [] \<Longrightarrow> getDeviceId st e = (d, st)"
  by (simp add: getDeviceId_def)

lemma getDeviceId_calls_stored:
  "st device_storage_key = Some d \<Longrightarrow> d \<noteq> [] \<Longrightarrow>
    getDeviceId_calls st es = (replicate (length es) d, st)"
  by (induction es) (simp_all add: getDeviceId_stored)

section \<open>Properties of the identity provider\<close>

text \<open>
  C12 (stability).  However many times \<open>getDeviceId\<close> is called, and whatever
  the browser reports at each later call, every call returns the identifier of
  the first call, and the storage ends as the first call left it: the identity
  is written at most once per installation.
\<close>

theorem getDeviceId_stable:
  "getDeviceId_calls st (e # es)
     = (replicate (Suc (length es)) (fst (getDeviceId st e)), snd (getDeviceId st e))"
proof -
  obtain d st' where g: "getDeviceId st e = (d, st')" by fastforce
  have "st' device_storage_key = Some d" using getDeviceId_storage [of st e] g by simp
  moreover have "d \<noteq> []" using getDeviceId_ne [of st e] g by simp
  ultimately show ?thesis using g by (simp add: getDeviceId_calls_stored)
qed

text \<open>
  C13 (equivalence).  The JavaScript loop \<open>hash = (hash << 5) - hash + char;
  hash |= 0\<close>, evaluated with \<open>ToInt32\<close> written out, computes the same value as
  the loop on 32-bit words and as the polynomial hash with multiplier 31
  reduced to the signed 32-bit range.
\<close>

theorem simple_hash_equiv:
  "simple_hash s = sint (hash_w 0 s) \<and> simple_hash s = sint (word_of_int (poly_hash 0 s) :: 32 word)"
  using hash_loop_word [of 0 s] hash_w_poly [of 0 s] by (simp add: simple_hash_def)

text \<open>
  C14 (bounds).  When no identifier is stored, or the stored one is the empty
  string, \<open>getDeviceId\<close> returns \<open>DEV-\<close> followed by one to eight upper-case
  hexadecimal digits, and stores exactly that value under
  \<open>secure_device_id\<close>.
\<close>

theorem fresh_device_id_format:
  assumes "\<not> js_truthy (st device_storage_key)"
  shows "\<exists>hex. fst (getDeviceId st e) = ''DEV-'' @ hex \<and> hex \<noteq> [] \<and> length hex \<le> 8
           \<and> set hex \<subseteq> upper_hex_chars
           \<and> snd (getDeviceId st e) = st(device_storage_key \<mapsto> ''DEV-'' @ hex)"
proof -
  have g: "getDeviceId st e = fresh_device_id st e"
    using assms by (auto simp: getDeviceId_def js_truthy_def split: option.splits)
  have "\<bar>simple_hash (raw_fingerprint e)\<bar> \<le> 2 ^ 31"
    using simple_hash_range [of "raw_fingerprint e"] by arith
  from device_id_of_hash_format [OF this] show ?thesis
    by (auto simp: g fresh_device_id_def Let_def)
qed

theorem fresh_device_id_format_witness:
  "\<not> js_truthy (Map.empty device_storage_key)
    \<and> (\<exists>hex. fst (getDeviceId Map.empty sample_env) = ''DEV-'' @ hex \<and> hex \<noteq> [] \<and> length hex \<le> 8
           \<and> set hex \<subseteq> upper_hex_chars
           \<and> snd (getDeviceId Map.empty sample_env) = Map.empty(device_storage_key \<mapsto> ''DEV-'' @ hex))"
proof -
  have h: "\<not> js_truthy (Map.empty device_storage_key)" by simp
  show ?thesis using h fresh_device_id_format [OF h, of sample_env] by blast
qed

text \<open>
  C15 (roundtrip).  The identifier determines the absolute value of the hash and
  nothing more: reading the hexadecimal part back gives \<open>|hash|\<close>, and two
  hashes give the same identifier exactly when their absolute values agree, so
  a hash and its negation collide.
\<close>

theorem device_id_roundtrip:
  "parse_hex (drop 4 (device_id_of_hash h)) = nat \<bar>h\<bar>
    \<and> (device_id_of_hash a = device_id_of_hash b \<longleftrightarrow> \<bar>a\<bar> = \<bar>b\<bar>)"
  using device_id_of_hash_parts [of h] device_id_of_hash_eq_iff [of a b] by simp

text \<open>
  C22 (termination).  The hash loop as the source writes it, a counter running
  over the fingerprint string, stops for every input, after exactly as many
  rounds as the string has characters, with the hash \<open>simple_hash\<close> computes.
\<close>

theorem hash_for_returns: "hash_for raw = Some (length raw, simple_hash raw)"
  using hash_for_from [of 0 raw 0] by (simp add: hash_for_def simple_hash_def)

end
