(* ===== verification/Login_Gate.thy ===== *)
theory Login_Gate
  imports Device_Id
begin

text \<open>
  The login screen, \<open>src/components/Login.tsx\<close>.  Its state hooks (lines
  10--14) are a record; its asynchronous \<open>handleSubmit\<close> (lines 20--54) is
  split at its suspension points into steps of a state machine:
  \<^item> \<open>L_Submit\<close>: lines 21--27, up to the 1.5 s \<open>await\<close>; the continuation
    keeps the render closure's \<open>inputKey\<close>, \<open>attempts\<close> and \<open>deviceId\<close>
    (\<open>scan_pending\<close>);
  \<^item> \<open>L_ScanDone\<close>: lines 32--53, the code after the \<open>await\<close>, on the
    closure's values: an accepted key schedules \<open>onLogin\<close> after 0.8 s
    (\<open>login_pending\<close>); a rejected one counts the attempt and, at the third,
    locks the screen and schedules the unlock after 10 s (\<open>unlock_pending\<close>);
  \<^item> \<open>L_Unlock\<close>: lines 45--49, the unlock timer;
  \<^item> \<open>L_LoginFire\<close>: lines 34--36, the call \<open>onLogin(inputKey, deviceId)\<close>,
    which is the step's output;
  \<^item> \<open>L_Type\<close>: the input's \<open>onChange\<close> (lines 98--101).
  The mount effect (lines 16--18) runs before any event is handled, so the
  machine starts with \<open>deviceId\<close> read by \<open>getDeviceId\<close>.  Which steps the
  page offers follows the render: the input is disabled while scanning or after
  success (line 102), the form is replaced by the lock notice while locked
  (line 86), and the button is enabled only when idle (line 116).  The error
  message is a datatype of the three messages the code sets.
\<close>

datatype login_status = IDLE | SCANNING | LOCKED | SUCCESS

datatype login_msg = NoError | Intrusion | Invalid nat

record login_state =
  inputKey :: string
  status :: login_status
  login_error :: login_msg
  attempts :: nat
  login_deviceId :: device_id
  scan_pending :: "(string \<times> nat \<times> device_id) option"
  unlock_pending :: bool
  login_pending :: "(string \<times> device_id) option"

datatype login_event = L_Type string | L_Submit | L_ScanDone | L_Unlock | L_LoginFire

text \<open>Line 32: the two access codes the screen accepts.\<close>

definition login_key_accepted :: "string \<Rightarrow> bool" where
  "login_key_accepted k \<longleftrightarrow> k = ''test123@'' \<or> k = ''vip123@''"

definition login_init :: "local_storage \<Rightarrow> device_env \<Rightarrow> login_state" where
  "login_init st e =
     \<lparr>inputKey = [], status = IDLE, login_error = NoError, attempts = 0,
      login_deviceId = fst (getDeviceId st e), scan_pending = None, unlock_pending = False,
      login_pending = None\<rparr>"

definition login_submit :: "login_state \<Rightarrow> login_state" where
  "login_submit s =
     (if status s = LOCKED then s
      else s\<lparr>status := SCANNING, login_error := NoError,
             scan_pending := Some (inputKey s, attempts s, login_deviceId s)\<rparr>)"

definition login_scan_done :: "login_state \<Rightarrow> string \<Rightarrow> nat \<Rightarrow> device_id \<Rightarrow> login_state" where
  "login_scan_done s key att dev =
     (if login_key_accepted key then
        s\<lparr>status := SUCCESS, scan_pending := None, login_pending := Some (key, dev)\<rparr>
      else
        (let newAttempts = att + 1 in
         if 3 \<le> newAttempts then
           s\<lparr>status := LOCKED, attempts := newAttempts, login_error := Intrusion,
             scan_pending := None, unlock_pending := True\<rparr>
         else
           s\<lparr>status := IDLE, attempts := newAttempts, login_error := Invalid (3 - newAttempts),
             scan_pending := None\<rparr>))"

definition login_unlock :: "login_state \<Rightarrow> login_state" where
  "login_unlock s = s\<lparr>attempts := 0, status := IDLE, login_error := NoError, unlock_pending := False\<rparr>"

fun login_enabled :: "login_state \<Rightarrow> login_event \<Rightarrow> bool" where
  "login_enabled s (L_Type v) = (status s \<noteq> LOCKED \<and> status s \<noteq> SCANNING \<and> status s \<noteq> SUCCESS)"
| "login_enabled s L_Submit = (status s = IDLE)"
| "login_enabled s L_ScanDone = (scan_pending s \<noteq> None)"
| "login_enabled s L_Unlock = unlock_pending s"
| "login_enabled s L_LoginFire = (login_pending s \<noteq> None)"

text \<open>One step: the next state and the \<open>onLogin\<close> call it makes, if any.\<close>

fun login_step :: "login_state \<Rightarrow> login_event \<Rightarrow> login_state \<times> (string \<times> device_id) option" where
  "login_step s (L_Type v) = (s\<lparr>inputKey := v, login_error := NoError\<rparr>, None)"
| "login_step s L_Submit = (login_submit s, None)"
| "login_step s L_ScanDone =
     (case scan_pending s of
        None \<Rightarrow> (s, None)
      | Some (key, att, dev) \<Rightarrow> (login_scan_done s key att dev, None))"
| "login_step s L_Unlock = (login_unlock s, None)"
| "login_step s L_LoginFire = (s\<lparr>login_pending := None\<rparr>, login_pending s)"

inductive login_reachable :: "local_storage \<Rightarrow> device_env \<Rightarrow> login_state \<Rightarrow> bool" for st e where
  init: "login_reachable st e (login_init st e)"
| step: "login_reachable st e s \<Longrightarrow> login_enabled s ev \<Longrightarrow> login_reachable st e (fst (login_step s ev))"

text \<open>The calls to \<open>onLogin\<close> a reachable screen can make.\<close>

inductive login_emits :: "local_storage \<Rightarrow> device_env \<Rightarrow> string \<times> device_id \<Rightarrow> bool" for st e where
  emit: "login_reachable st e s \<Longrightarrow> login_enabled s ev \<Longrightarrow> snd (login_step s ev) = Some c \<Longrightarrow> login_emits st e c"

definition login_inv :: "device_id \<Rightarrow> login_state \<Rightarrow> bool" where
  "login_inv dev s \<longleftrightarrow>
     login_deviceId s = dev
   \<and> attempts s \<le> 3
   \<and> (status s = LOCKED \<longleftrightarrow> unlock_pending s)
   \<and> (status s = LOCKED \<longrightarrow> attempts s = 3 \<and> login_error s = Intrusion)
   \<and> (status s \<noteq> LOCKED \<longrightarrow> attempts s < 3)
   \<and> (status s = SCANNING \<longleftrightarrow> scan_pending s \<noteq> None)
   \<and> (\<forall>k a d. scan_pending s = Some (k, a, d) \<longrightarrow> k = inputKey s \<and> a = attempts s \<and> d = dev)
   \<and> (\<forall>k d. login_pending s = Some (k, d) \<longrightarrow> login_key_accepted k \<and> d = dev \<and> status s = SUCCESS)"

text \<open>
  A run of the screen on a fresh browser: a wrong code, its rejection, the
  member code and its acceptance.
\<close>

definition demo_login_states :: "login_state list" where
  "demo_login_states =
     (let s0 = login_init Map.empty sample_env;
          s1 = fst (login_step s0 (L_Type ''guess''));
          s2 = fst (login_step s1 L_Submit);
          s3 = fst (login_step s2 L_ScanDone);
          s4 = fst (login_step s3 (L_Type ''test123@''));
          s5 = fst (login_step s4 L_Submit);
          s6 = fst (login_step s5 L_ScanDone)
      in [s0, s1, s2, s3, s4, s5, s6])"

subsection \<open>What the screen shows\<close>

text \<open>
  Lines 72--127: the badge above the form (its icon and the spinner of the
  scan), the device identifier (line 83), and either the lock notice
  (lines 86--90) or the form: the input, disabled while scanning or after
  success (line 102), the error line when the message is not empty (line
  112), and the submit button, disabled unless idle (line 116), with its label
  (line 124).  Icons are named by what they show.
\<close>

datatype login_icon = Icon_Locked | Icon_Unlocked | Icon_Shield

record login_form_view =
  input_disabled :: bool
  shows_error :: bool
  button_disabled :: bool
  button_label :: string

datatype login_panel = Panel_Locked | Panel_Form login_form_view

record login_view =
  lv_icon :: login_icon
  lv_spinner :: bool
  lv_deviceId :: device_id
  lv_panel :: login_panel

definition login_render :: "login_state \<Rightarrow> login_view" where
  "login_render s =
     \<lparr>lv_icon = (if status s = LOCKED then Icon_Locked else if status s = SUCCESS then Icon_Unlocked
                 else Icon_Shield),
      lv_spinner = (status s = SCANNING),
      lv_deviceId = login_deviceId s,
      lv_panel =
        (if status s = LOCKED then Panel_Locked
         else Panel_Form
           \<lparr>input_disabled = (status s = SCANNING \<or> status s = SUCCESS),
            shows_error = (login_error s \<noteq> NoError),
            button_disabled = (status s \<noteq> IDLE),
            button_label = (if status s = SCANNING then ''VERIFYING...''
                            else if status s = SUCCESS then ''ACCESS GRANTED'' else ''INITIATE SESSION'')\<rparr>)\<rparr>"

text \<open>
  The user's events a rendered screen accepts: typing needs an enabled input,
  submitting (the button, or Enter in the input, which HTML's implicit
  submission blocks when the submit button is disabled) an enabled button.
  The other events are timers.
\<close>

fun login_ui_offers :: "login_view \<Rightarrow> login_event \<Rightarrow> bool" where
  "login_ui_offers v (L_Type k) =
     (case lv_panel v of Panel_Locked \<Rightarrow> False | Panel_Form f \<Rightarrow> \<not> input_disabled f)"
| "login_ui_offers v L_Submit =
     (case lv_panel v of Panel_Locked \<Rightarrow> False | Panel_Form f \<Rightarrow> \<not> button_disabled f)"
| "login_ui_offers v ev = False"

subsection \<open>Runs\<close>

text \<open>
  A run of events from a state with the \<open>onLogin\<close> calls it makes, \<open>None\<close> as
  soon as an event is not enabled.
\<close>

fun login_run :: "login_state \<Rightarrow> login_event list \<Rightarrow> (login_state \<times> (string \<times> device_id) list) option" where
  "login_run s [] = Some (s, [])"
| "login_run s (ev # evs) =
     (if login_enabled s ev then
        (case login_run (fst (login_step s ev)) evs of
           None \<Rightarrow> None
         | Some (t, outs) \<Rightarrow> Some (t, (case snd (login_step s ev) of None \<Rightarrow> [] | Some c \<Rightarrow> [c]) @ outs))
      else None)"

text \<open>A visitor who types the member code and submits it.\<close>

definition member_attempt :: "login_event list" where
  "member_attempt = [L_Type ''test123@'', L_Submit, L_ScanDone, L_LoginFire]"

section \<open>Lemmas\<close>

lemma login_inv_init: "login_inv (fst (getDeviceId st e)) (login_init st e)"
  by (simp add: login_inv_def login_init_def)

lemma login_inv_step:
  assumes "login_inv dev s" "login_enabled s ev"
  shows "login_inv dev (fst (login_step s ev))"
  using assms
proof (cases ev)
  case L_Submit
  with assms show ?thesis by (auto simp: login_inv_def login_submit_def)
next
  case L_ScanDone
  with assms obtain k a d where p: "scan_pending s = Some (k, a, d)" by auto
  with assms L_ScanDone show ?thesis
    by (auto simp: login_inv_def login_scan_done_def Let_def)
next
  case L_Unlock
  with assms show ?thesis by (auto simp: login_inv_def login_unlock_def)
qed (auto simp: login_inv_def)

lemma login_reachable_inv:
  "login_reachable st e s \<Longrightarrow> login_inv (fst (getDeviceId st e)) s"
proof (induction rule: login_reachable.induct)
  case init
  show ?case by (rule login_inv_init)
next
  case (step s ev)
  from step.IH step.hyps(2) show ?case by (rule login_inv_step)
qed

lemma login_step_output:
  "login_inv dev s \<Longrightarrow> snd (login_step s ev) = Some (k, d) \<Longrightarrow> login_key_accepted k \<and> d = dev"
  by (cases ev) (auto simp: login_inv_def split: option.splits prod.splits)

lemma login_reachable_demo:
  "\<forall>s\<in>set demo_login_states. login_reachable Map.empty sample_env s"
proof -
  let ?s0 = "login_init Map.empty sample_env"
  have r0: "login_reachable Map.empty sample_env ?s0" by (rule login_reachable.init)
  have r1: "login_reachable Map.empty sample_env (fst (login_step ?s0 (L_Type ''guess'')))"
    by (rule login_reachable.step [OF r0]) (simp add: login_init_def)
  let ?s1 = "fst (login_step ?s0 (L_Type ''guess''))"
  have r2: "login_reachable Map.empty sample_env (fst (login_step ?s1 L_Submit))"
    by (rule login_reachable.step [OF r1]) (simp add: login_init_def)
  let ?s2 = "fst (login_step ?s1 L_Submit)"
  have r3: "login_reachable Map.empty sample_env (fst (login_step ?s2 L_ScanDone))"
    by (rule login_reachable.step [OF r2]) (simp add: login_init_def login_submit_def)
  let ?s3 = "fst (login_step ?s2 L_ScanDone)"
  have r4: "login_reachable Map.empty sample_env (fst (login_step ?s3 (L_Type ''test123@'')))"
    by (rule login_reachable.step [OF r3])
       (simp add: login_init_def login_submit_def login_scan_done_def login_key_accepted_def)
  let ?s4 = "fst (login_step ?s3 (L_Type ''test123@''))"
  have r5: "login_reachable Map.empty sample_env (fst (login_step ?s4 L_Submit))"
    by (rule login_reachable.step [OF r4])
       (simp add: login_init_def login_submit_def login_scan_done_def login_key_accepted_def)
  let ?s5 = "fst (login_step ?s4 L_Submit)"
  have r6: "login_reachable Map.empty sample_env (fst (login_step ?s5 L_ScanDone))"
    by (rule login_reachable.step [OF r5])
       (simp add: login_init_def login_submit_def login_scan_done_def login_key_accepted_def)
  show ?thesis using r0 r1 r2 r3 r4 r5 r6 by (simp add: demo_login_states_def Let_def)
qed

lemmas login_demo_defs =
  demo_login_states_def login_init_def login_submit_def login_scan_done_def login_key_accepted_def
  login_unlock_def Let_def

lemma login_run_append:
  "login_run s (xs @ ys) =
     (case login_run s xs of
        None \<Rightarrow> None
      | Some (t, o1) \<Rightarrow> (case login_run t ys of None \<Rightarrow> None | Some (u, o2) \<Rightarrow> Some (u, o1 @ o2)))"
  by (induction xs arbitrary: s) (auto split: option.split prod.split)

lemma member_attempt_run:
  assumes "login_inv dev s" "status s = IDLE"
  shows "\<exists>s'. login_run s member_attempt = Some (s', [(''test123@'', dev)])"
  using assms
  by (simp add: member_attempt_def login_inv_def login_submit_def login_scan_done_def login_key_accepted_def)

lemma locked_run:
  assumes "login_inv dev s" "status s = LOCKED"
  shows "\<exists>s'. login_run s (L_Unlock # member_attempt) = Some (s', [(''test123@'', dev)])"
proof -
  have "login_inv dev (login_unlock s)" "status (login_unlock s) = IDLE"
    using assms by (auto simp: login_inv_def login_unlock_def)
  from member_attempt_run [OF this] obtain s' where
    "login_run (login_unlock s) member_attempt = Some (s', [(''test123@'', dev)])" ..
  with assms show ?thesis by (auto simp: login_inv_def)
qed

lemma scanning_run:
  assumes "login_inv dev s" "status s = SCANNING"
  shows "\<exists>evs s' k. login_run s evs = Some (s', [(k, dev)]) \<and> login_key_accepted k"
proof -
  from assms obtain k a where p: "scan_pending s = Some (k, a, dev)"
    by (auto simp: login_inv_def)
  let ?s1 = "fst (login_step s L_ScanDone)"
  have en: "login_enabled s L_ScanDone" "snd (login_step s L_ScanDone) = None" using p by simp_all
  have i1: "login_inv dev ?s1" using login_inv_step [OF assms(1) en(1)] .
  have "\<exists>evs s' k'. login_run ?s1 evs = Some (s', [(k', dev)]) \<and> login_key_accepted k'"
  proof (cases "login_key_accepted k")
    case True
    then have "login_pending ?s1 = Some (k, dev)" using p by (simp add: login_scan_done_def)
    then have "login_run ?s1 [L_LoginFire] = Some (?s1\<lparr>login_pending := None\<rparr>, [(k, dev)])" by simp
    with True show ?thesis by blast
  next
    case False
    then have "status ?s1 = IDLE \<or> status ?s1 = LOCKED" using p by (simp add: login_scan_done_def Let_def)
    have acc: "login_key_accepted ''test123@''" by (simp add: login_key_accepted_def)
    from \<open>status ?s1 = IDLE \<or> status ?s1 = LOCKED\<close> show ?thesis
    proof
      assume "status ?s1 = IDLE"
      from member_attempt_run [OF i1 this] obtain s' where
        "login_run ?s1 member_attempt = Some (s', [(''test123@'', dev)])" ..
      with acc show ?thesis by blast
    next
      assume "status ?s1 = LOCKED"
      from locked_run [OF i1 this] obtain s' where
        "login_run ?s1 (L_Unlock # member_attempt) = Some (s', [(''test123@'', dev)])" ..
      with acc show ?thesis by blast
    qed
  qed
  then obtain evs s' k' where "login_run ?s1 evs = Some (s', [(k', dev)])" "login_key_accepted k'" by blast
  with en have "login_run s (L_ScanDone # evs) = Some (s', [(k', dev)])" by simp
  with \<open>login_key_accepted k'\<close> show ?thesis by blast
qed

section \<open>Properties of the login screen\<close>

text \<open>
  C16 (safety).  The screen calls \<open>onLogin\<close> only with one of the two accepted
  access codes and with the identifier \<open>getDeviceId\<close> returned at mount,
  which is never empty.
\<close>

theorem login_emits_accepted:
  assumes "login_emits st e (k, d)"
  shows "login_key_accepted k \<and> d = fst (getDeviceId st e) \<and> d \<noteq> []"
  using assms
proof cases
  case (emit s ev)
  from login_reachable_inv [OF emit(1)] emit(3)
  have "login_key_accepted k \<and> d = fst (getDeviceId st e)"
    by (rule login_step_output)
  then show ?thesis using getDeviceId_ne [of st e] by simp
qed

theorem login_emits_accepted_witness:
  "login_emits Map.empty sample_env (''test123@'', fst (getDeviceId Map.empty sample_env))
   \<and> login_key_accepted ''test123@''"
proof -
  let ?s6 = "demo_login_states ! 6"
  have r: "login_reachable Map.empty sample_env ?s6"
    using login_reachable_demo by (simp add: demo_login_states_def Let_def)
  have en: "login_enabled ?s6 L_LoginFire" by (simp add: login_demo_defs)
  have out: "snd (login_step ?s6 L_LoginFire) = Some (''test123@'', fst (getDeviceId Map.empty sample_env))"
    by (simp add: login_demo_defs)
  have em: "login_emits Map.empty sample_env (''test123@'', fst (getDeviceId Map.empty sample_env))"
    by (rule login_emits.emit [OF r en out])
  show ?thesis using em login_emits_accepted [OF em] by blast
qed

text \<open>
  C18 (invariant).  In every reachable state of the screen at most three
  attempts are counted; the screen is locked exactly while the unlock timer is
  pending, and then the count is three and the intrusion message is shown; a
  submission while locked changes nothing.
\<close>

theorem login_lockout:
  assumes "login_reachable st e s"
  shows "attempts s \<le> 3 \<and> (status s = LOCKED \<longleftrightarrow> unlock_pending s)
    \<and> (status s = LOCKED \<longrightarrow> attempts s = 3 \<and> login_error s = Intrusion \<and> fst (login_step s L_Submit) = s)"
  using login_reachable_inv [OF assms] by (auto simp: login_inv_def login_submit_def)

theorem login_lockout_witness:
  "login_reachable Map.empty sample_env (demo_login_states ! 3)
   \<and> attempts (demo_login_states ! 3) = 1 \<and> status (demo_login_states ! 3) = IDLE
   \<and> attempts (demo_login_states ! 3) \<le> 3"
proof -
  have r: "login_reachable Map.empty sample_env (demo_login_states ! 3)"
    using login_reachable_demo by (simp add: demo_login_states_def Let_def)
  show ?thesis using r login_lockout [OF r] by (simp add: login_demo_defs)
qed

text \<open>
  C19 (functional).  When the scan of a rejected code completes, the count of
  attempts goes up by one and the scan is over; below three the screen returns
  to idle and reports how many attempts remain, at three it locks with the
  intrusion message and starts the unlock timer; no call to \<open>onLogin\<close> is
  scheduled.
\<close>

theorem login_rejected_attempt:
  assumes "login_reachable st e s" "scan_pending s = Some (k, a, d)" "\<not> login_key_accepted k"
  defines "s' \<equiv> fst (login_step s L_ScanDone)"
  shows "attempts s' = attempts s + 1 \<and> scan_pending s' = None \<and> login_pending s' = None
    \<and> (attempts s + 1 < 3 \<longrightarrow> status s' = IDLE \<and> login_error s' = Invalid (3 - (attempts s + 1)))
    \<and> (attempts s + 1 = 3 \<longrightarrow> status s' = LOCKED \<and> login_error s' = Intrusion \<and> unlock_pending s')"
proof -
  have inv: "login_inv (fst (getDeviceId st e)) s" by (rule login_reachable_inv [OF assms(1)])
  then have "login_pending s = None" using assms(2)
    by (cases "login_pending s") (auto simp: login_inv_def)
  with inv assms(2,3) show ?thesis
    by (auto simp: s'_def login_inv_def login_scan_done_def Let_def)
qed

theorem login_rejected_attempt_witness:
  "login_reachable Map.empty sample_env (demo_login_states ! 2)
   \<and> scan_pending (demo_login_states ! 2) = Some (''guess'', 0, fst (getDeviceId Map.empty sample_env))
   \<and> \<not> login_key_accepted ''guess''
   \<and> login_error (fst (login_step (demo_login_states ! 2) L_ScanDone)) = Invalid 2"
proof -
  have r: "login_reachable Map.empty sample_env (demo_login_states ! 2)"
    using login_reachable_demo by (simp add: demo_login_states_def Let_def)
  have p: "scan_pending (demo_login_states ! 2) = Some (''guess'', 0, fst (getDeviceId Map.empty sample_env))"
    by (simp add: login_demo_defs)
  have k: "\<not> login_key_accepted ''guess''" by (simp add: login_key_accepted_def)
  show ?thesis using r p k login_rejected_attempt [OF r p k] by (simp add: login_demo_defs)
qed

text \<open>
  C26 (refinement).  The controls the rendered screen leaves usable are exactly
  the user events the machine enables: the input accepts typing and the button
  (or Enter) submits exactly when \<open>login_enabled\<close> allows it.  A submission
  the page offers always starts a scan, so the \<open>status === 'LOCKED'\<close> guard of
  \<open>handleSubmit\<close> (line 23) is never reached from the page, and the enabled
  button reads INITIATE SESSION.
\<close>

theorem login_controls_match:
  "login_ui_offers (login_render s) (L_Type v) = login_enabled s (L_Type v)
   \<and> login_ui_offers (login_render s) L_Submit = login_enabled s L_Submit
   \<and> (login_ui_offers (login_render s) L_Submit \<longrightarrow>
        status (fst (login_step s L_Submit)) = SCANNING
        \<and> lv_panel (login_render s) = Panel_Form
             \<lparr>input_disabled = False, shows_error = (login_error s \<noteq> NoError),
              button_disabled = False, button_label = ''INITIATE SESSION''\<rparr>)"
  by (cases "status s") (simp_all add: login_render_def login_submit_def)

theorem login_controls_match_witness:
  "login_ui_offers (login_render (login_init Map.empty sample_env)) L_Submit
   \<and> status (fst (login_step (login_init Map.empty sample_env) L_Submit)) = SCANNING"
proof -
  have h: "login_ui_offers (login_render (login_init Map.empty sample_env)) L_Submit"
    by (simp add: login_render_def login_init_def)
  show ?thesis using h login_controls_match [of "login_init Map.empty sample_env"] by blast
qed

text \<open>
  C27 (liveness).  The screen never gets stuck: from every reachable state,
  unless it has already called \<open>onLogin\<close>, some sequence of user actions and
  timer expiries makes it call \<open>onLogin\<close> exactly once, with an accepted code
  and the device identifier of the mount.  In particular the lock always ends.
\<close>

theorem login_liveness:
  assumes "login_reachable st e s"
  shows "(status s = SUCCESS \<and> login_pending s = None)
    \<or> (\<exists>evs s' k. login_run s evs = Some (s', [(k, fst (getDeviceId st e))]) \<and> login_key_accepted k)"
proof -
  let ?dev = "fst (getDeviceId st e)"
  have inv: "login_inv ?dev s" by (rule login_reachable_inv [OF assms])
  have acc: "login_key_accepted ''test123@''" by (simp add: login_key_accepted_def)
  show ?thesis
  proof (cases "status s")
    case IDLE
    from member_attempt_run [OF inv IDLE] acc show ?thesis by blast
  next
    case LOCKED
    from locked_run [OF inv LOCKED] acc show ?thesis by blast
  next
    case SCANNING
    from scanning_run [OF inv SCANNING] show ?thesis by blast
  next
    case SUCCESS
    show ?thesis
    proof (cases "login_pending s")
      case None
      with SUCCESS show ?thesis by blast
    next
      case (Some c)
      then obtain k d where c: "login_pending s = Some (k, d)" by (cases c) blast
      with inv have "login_key_accepted k" "d = ?dev" by (auto simp: login_inv_def)
      moreover have "login_run s [L_LoginFire] = Some (s\<lparr>login_pending := None\<rparr>, [(k, d)])"
        using c by simp
      ultimately show ?thesis by blast
    qed
  qed
qed

theorem login_liveness_witness:
  "login_reachable Map.empty sample_env (demo_login_states ! 3)
   \<and> status (demo_login_states ! 3) = IDLE
   \<and> (\<exists>evs s' k. login_run (demo_login_states ! 3) evs
          = Some (s', [(k, fst (getDeviceId Map.empty sample_env))]) \<and> login_key_accepted k)"
proof -
  have r: "login_reachable Map.empty sample_env (demo_login_states ! 3)"
    using login_reachable_demo by (simp add: demo_login_states_def Let_def)
  have i: "status (demo_login_states ! 3) = IDLE" by (simp add: login_demo_defs)
  from login_liveness [OF r] i r show ?thesis by auto
qed

end
