(* ===== verification/App_Machine.thy ===== *)
theory App_Machine
  imports Licensing Marketplace Upload_Form Login_Gate
begin

text \<open>
  The storefront as a state machine: the events the rendered page of
  \<open>src/App.tsx\<close> (lines 158--201) lets the user raise, which handler each one
  runs, and the states reachable from the start state.  An event is enabled
  when the page renders the control that raises it:
  \<^item> \<open>Ev_Login\<close>: the login screen is shown while not authenticated (line 159);
    it calls \<open>onLogin\<close> only with an accepted key and the device identity it
    read at mount, which is never empty (theory \<open>Login_Gate\<close>);
  \<^item> \<open>Ev_SetView\<close>: the navigation bar, the hero and the form's cancel button;
  \<^item> \<open>Ev_Buy\<close>: a buy button of the market view (\<open>view = MARKET\<close>), one per
    document the user does not own;
  \<^item> \<open>Ev_Upload\<close>: the form's submit in the upload view, with a form the
    browser lets through and an identifier not yet in the catalogue (the random
    nine-character identifier is assumed fresh);
  \<^item> \<open>Ev_Read\<close>, \<open>Ev_QuickDownload\<close>: the buttons of the library view, one per
    owned document;
  \<^item> \<open>Ev_CloseReader\<close>: the reader's close button.
  The abstract ledger of the specification (balance, library, binding map) is
  computed from a state by \<open>abs_ledger\<close>; \<open>spec_purchase\<close> and \<open>spec_publish\<close>
  are the specification's operations on it.
\<close>

datatype app_event =
    Ev_Login string device_id
  | Ev_SetView view_state
  | Ev_Buy document_item bool
  | Ev_Upload upload_form doc_id
  | Ev_Read document_item
  | Ev_QuickDownload document_item
  | Ev_CloseReader

fun app_enabled :: "app_state \<Rightarrow> app_event \<Rightarrow> bool" where
  "app_enabled s (Ev_Login key dev) = (\<not> isAuthenticated s \<and> login_key_accepted key \<and> dev \<noteq> [])"
| "app_enabled s (Ev_SetView v) = isAuthenticated s"
| "app_enabled s (Ev_Buy doc c) =
     (isAuthenticated s \<and> view s = MARKET \<and> doc \<in> set (displayDocs (documents s) (app_user s) False))"
| "app_enabled s (Ev_Upload f newId) =
     (isAuthenticated s \<and> view s = UPLOAD \<and> handleSubmit f \<noteq> None \<and> newId \<notin> doc_id ` set (documents s))"
| "app_enabled s (Ev_Read doc) =
     (isAuthenticated s \<and> view s = LIBRARY \<and> doc \<in> set (displayDocs (documents s) (app_user s) True))"
| "app_enabled s (Ev_QuickDownload doc) =
     (isAuthenticated s \<and> view s = LIBRARY \<and> doc \<in> set (displayDocs (documents s) (app_user s) True))"
| "app_enabled s Ev_CloseReader = (currentReadingDoc s \<noteq> None)"

fun app_step :: "app_state \<Rightarrow> app_event \<Rightarrow> app_state" where
  "app_step s (Ev_Login key dev) = handleLogin s key dev"
| "app_step s (Ev_SetView v) = s\<lparr>view := v\<rparr>"
| "app_step s (Ev_Buy doc c) = snd (handleBuy s doc c)"
| "app_step s (Ev_Upload f newId) =
     (case handleSubmit f of None \<Rightarrow> s | Some d \<Rightarrow> handleUpload s d newId)"
| "app_step s (Ev_Read doc) = snd (handleRead s doc)"
| "app_step s (Ev_QuickDownload doc) = s"
| "app_step s Ev_CloseReader = s\<lparr>currentReadingDoc := None\<rparr>"

inductive reachable :: "app_state \<Rightarrow> bool" where
  init: "reachable initial_state"
| step: "reachable s \<Longrightarrow> app_enabled s e \<Longrightarrow> reachable (app_step s e)"

text \<open>A run of events from a state; \<open>None\<close> as soon as an event is not enabled.\<close>

fun app_run :: "app_state \<Rightarrow> app_event list \<Rightarrow> app_state option" where
  "app_run s [] = Some s"
| "app_run s (e # es) = (if app_enabled s e then app_run (app_step s e) es else None)"

definition app_inv :: "app_state \<Rightarrow> bool" where
  "app_inv s \<longleftrightarrow>
     0 \<le> balance (app_user s)
   \<and> distinct (library (app_user s))
   \<and> distinct (map doc_id (documents s))
   \<and> set (library (app_user s)) \<subseteq> doc_id ` set (documents s)
   \<and> (\<forall>d\<in>set (documents s). boundDeviceId d \<noteq> None \<longleftrightarrow> doc_id d \<in> set (library (app_user s)))
   \<and> (\<forall>d\<in>set (documents s). boundDeviceId d = None \<or> boundDeviceId d = Some (deviceId (app_user s)))
   \<and> (\<forall>d\<in>set (documents s). 0 \<le> price d)
   \<and> (isAuthenticated s \<longrightarrow> deviceId (app_user s) \<noteq> [])
   \<and> (\<not> isAuthenticated s \<longrightarrow> library (app_user s) = [] \<and> currentReadingDoc s = None)
   \<and> (\<forall>d. currentReadingDoc s = Some d \<longrightarrow> verifyDeviceBinding d (deviceId (app_user s)))"

text \<open>
  A well-formed catalogue entry, the \<open>Document\<close> type of the specification
  (price an integer at least 0, an optional summary) with what \<open>types.ts\<close>
  leaves to the code: ratings between 0 and 5 stars, and \<open>purchased\<close>, which
  no handler ever sets.
\<close>

definition wf_document :: "document_item \<Rightarrow> bool" where
  "wf_document d \<longleftrightarrow>
     0 \<le> price d \<and> 0 \<le> rating d \<and> rating d \<le> 5 \<and> \<not> purchased d \<and> aiSummary d \<noteq> None"

subsection \<open>The specification's ledger\<close>

record ledger =
  l_balance :: int
  l_library :: "doc_id set"
  l_binding :: "doc_id \<Rightarrow> device_id option"

definition abs_ledger :: "app_state \<Rightarrow> ledger" where
  "abs_ledger s =
     \<lparr>l_balance = balance (app_user s), l_library = set (library (app_user s)),
      l_binding = binding_of (documents s)\<rparr>"

definition spec_purchase :: "ledger \<Rightarrow> doc_id \<Rightarrow> int \<Rightarrow> device_id \<Rightarrow> ledger" where
  "spec_purchase l i p dev =
     l\<lparr>l_balance := l_balance l - p, l_library := insert i (l_library l),
       l_binding := (l_binding l)(i \<mapsto> dev)\<rparr>"

definition spec_publish :: "ledger \<Rightarrow> doc_id \<Rightarrow> device_id \<Rightarrow> ledger" where
  "spec_publish l i dev =
     l\<lparr>l_library := insert i (l_library l), l_binding := (l_binding l)(i \<mapsto> dev)\<rparr>"

subsection \<open>A run of the storefront\<close>

text \<open>
  The specification's first scenario as a run: a member logs in on device
  \<open>DEV-AAAA\<close> with 500 credits, opens the market, buys the 80-credit exam
  bank and switches to the library.
\<close>

definition demo_login :: app_state where
  "demo_login = app_step initial_state (Ev_Login ''test123@'' ''DEV-AAAA'')"

definition demo_market :: app_state where
  "demo_market = app_step demo_login (Ev_SetView MARKET)"

definition demo_bought :: app_state where
  "demo_bought = app_step demo_market (Ev_Buy (MOCK_DOCS ! 1) True)"

definition demo_library :: app_state where
  "demo_library = app_step demo_bought (Ev_SetView LIBRARY)"

section \<open>Lemmas\<close>

lemma app_inv_init: "app_inv initial_state"
  by (simp add: app_inv_def initial_state_def MOCK_DOCS_def guest_user_def)

lemma binding_of_SomeD:
  "binding_of docs i = Some x \<Longrightarrow> \<exists>d\<in>set docs. doc_id d = i \<and> boundDeviceId d = Some x"
  by (auto simp: binding_of_def dest: find_key_SomeD split: option.splits)

lemma app_inv_login:
  assumes "app_inv s" "\<not> isAuthenticated s" "dev \<noteq> []"
  shows "app_inv (handleLogin s key dev)"
proof -
  from assms(1,2) have "\<forall>d\<in>set (documents s). boundDeviceId d = None"
    by (auto simp: app_inv_def)
  with assms show ?thesis
    by (auto simp: app_inv_def handleLogin_def login_profile_def)
qed

lemma in_set_bind_documentsE:
  assumes "d' \<in> set (bind_documents docs i dev)"
  obtains d where "d \<in> set docs" "doc_id d = i" "d' = d\<lparr>boundDeviceId := Some dev\<rparr>"
  | "d' \<in> set docs" "doc_id d' \<noteq> i"
  using assms unfolding bind_documents_def by (auto elim: in_set_map_whereE)

lemma doc_ids_bind_documents [simp]:
  "doc_id ` set (bind_documents docs i dev) = doc_id ` set docs"
proof -
  have "set (map doc_id (bind_documents docs i dev)) = set (map doc_id docs)"
    by (simp only: bind_documents_ids)
  then show ?thesis by (simp only: set_map)
qed

lemma app_inv_buy_completed:
  assumes inv: "app_inv s" and doc: "doc \<in> set (documents s)"
    and fresh: "doc_id doc \<notin> set (library (app_user s))"
    and afford: "\<not> balance (app_user s) < price doc" and auth: "isAuthenticated s"
  defines "u \<equiv> app_user s"
  shows "app_inv (s\<lparr>app_user := buy_user_update u doc,
                     documents := bind_documents (documents s) (doc_id doc) (deviceId u),
                     view := LIBRARY\<rparr>)" (is "app_inv ?t")
proof -
  let ?docs' = "bind_documents (documents s) (doc_id doc) (deviceId u)"
  have lib': "library (app_user ?t) = library u @ [doc_id doc]"
    by (simp add: buy_user_update_def)
  have bound: "\<forall>d\<in>set ?docs'. boundDeviceId d \<noteq> None \<longleftrightarrow> doc_id d \<in> set (library (app_user ?t))"
  proof
    fix d' assume "d' \<in> set ?docs'"
    then show "boundDeviceId d' \<noteq> None \<longleftrightarrow> doc_id d' \<in> set (library (app_user ?t))"
    proof (cases rule: in_set_bind_documentsE)
      case 1 then show ?thesis by (auto simp: buy_user_update_def)
    next
      case 2 with inv show ?thesis by (auto simp: buy_user_update_def app_inv_def u_def)
    qed
  qed
  have dev: "\<forall>d\<in>set ?docs'. boundDeviceId d = None \<or> boundDeviceId d = Some (deviceId (app_user ?t))"
  proof
    fix d' assume "d' \<in> set ?docs'"
    then show "boundDeviceId d' = None \<or> boundDeviceId d' = Some (deviceId (app_user ?t))"
    proof (cases rule: in_set_bind_documentsE)
      case 1 then show ?thesis by (simp add: buy_user_update_def u_def)
    next
      case 2 with inv show ?thesis by (auto simp: buy_user_update_def app_inv_def u_def)
    qed
  qed
  have prices: "\<forall>d\<in>set ?docs'. 0 \<le> price d"
  proof
    fix d' assume "d' \<in> set ?docs'"
    then show "0 \<le> price d'"
      by (cases rule: in_set_bind_documentsE) (use inv in \<open>auto simp: app_inv_def\<close>)
  qed
  have "set (library (app_user ?t)) \<subseteq> doc_id ` set ?docs'"
    using inv doc by (auto simp: buy_user_update_def app_inv_def u_def)
  moreover have "0 \<le> balance (app_user ?t)" "distinct (library (app_user ?t))"
    using afford fresh inv by (auto simp: buy_user_update_def app_inv_def u_def)
  moreover have "distinct (map doc_id ?docs')"
    using inv by (simp add: app_inv_def)
  ultimately show ?thesis
    using inv auth bound dev prices by (auto simp: app_inv_def buy_user_update_def u_def)
qed

lemma app_inv_buy:
  assumes "app_inv s" "isAuthenticated s" "doc \<in> set (documents s)"
    "doc_id doc \<notin> set (library (app_user s))"
  shows "app_inv (snd (handleBuy s doc c))"
  by (rule handleBuy_cases [where s = s and doc = doc and c = c])
     (use assms app_inv_buy_completed in simp_all)

lemma app_inv_upload:
  assumes "app_inv s" "isAuthenticated s" "handleSubmit f = Some d" "newId \<notin> doc_id ` set (documents s)"
  shows "app_inv (handleUpload s d newId)"
proof -
  from assms(1,4) have "newId \<notin> set (library (app_user s))"
    by (auto simp: app_inv_def)
  moreover from assms(3) have "0 \<le> up_price d"
    by (auto simp: handleSubmit_def form_constraints_ok_def split: if_splits)
  ultimately show ?thesis using assms(1,2,4)
    by (auto simp: app_inv_def handleUpload_def upload_document_def Let_def)
qed

lemma app_inv_read:
  assumes "app_inv s" "isAuthenticated s"
  shows "app_inv (snd (handleRead s doc))"
  using assms by (auto simp: app_inv_def handleRead_def verifyDeviceBinding_iff split: option.splits)

lemma app_inv_step:
  assumes "app_inv s" "app_enabled s e"
  shows "app_inv (app_step s e)"
proof (cases e)
  case (Ev_Login key dev)
  with assms show ?thesis by (simp add: app_inv_login)
next
  case (Ev_Buy doc c)
  with assms show ?thesis by (simp add: app_inv_buy)
next
  case (Ev_Upload f newId)
  with assms show ?thesis by (auto simp: app_inv_upload)
next
  case (Ev_Read doc)
  with assms show ?thesis by (simp add: app_inv_read)
qed (use assms in \<open>auto simp: app_inv_def\<close>)

lemma reachable_app_inv: "reachable s \<Longrightarrow> app_inv s"
proof (induction rule: reachable.induct)
  case init
  show ?case by (rule app_inv_init)
next
  case (step s e)
  from step.IH step.hyps(2) show ?case by (rule app_inv_step)
qed

lemma app_inv_unowned_unbound:
  "app_inv s \<Longrightarrow> i \<notin> set (library (app_user s)) \<Longrightarrow> binding_of (documents s) i = None"
  by (cases "binding_of (documents s) i") (auto simp: app_inv_def dest!: binding_of_SomeD)

lemma binding_of_fresh:
  "i \<notin> doc_id ` set docs \<Longrightarrow> binding_of docs i = None"
  by (simp add: binding_of_def find_key_None_iff [THEN iffD2])

lemma binding_of_bind_documents_fun:
  "i \<in> doc_id ` set docs \<Longrightarrow> binding_of (bind_documents docs i dev) = (binding_of docs)(i \<mapsto> dev)"
  by (rule ext) (simp add: binding_of_bind_documents)

lemma handleUpload_fields:
  "documents (handleUpload s d newId) = upload_document (app_user s) d newId # documents s
   \<and> app_user (handleUpload s d newId) = (app_user s)\<lparr>library := library (app_user s) @ [newId]\<rparr>
   \<and> currentReadingDoc (handleUpload s d newId) = currentReadingDoc s"
  by (simp add: handleUpload_def Let_def upload_document_def)

lemma handleRead_fields:
  "documents (snd (handleRead s doc)) = documents s \<and> app_user (snd (handleRead s doc)) = app_user s"
  by (simp add: handleRead_def split: option.split)

lemma handleLogin_documents [simp]: "documents (handleLogin s key dev) = documents s"
  by (simp add: handleLogin_def)

lemma reachable_demo:
  "reachable demo_login \<and> reachable demo_market \<and> reachable demo_bought \<and> reachable demo_library"
proof -
  have l: "reachable demo_login"
    unfolding demo_login_def
    by (rule reachable.step [OF reachable.init]) (simp add: initial_state_def login_key_accepted_def)
  have m: "reachable demo_market"
    unfolding demo_market_def
    by (rule reachable.step [OF l]) (simp add: demo_login_def handleLogin_def)
  have b: "reachable demo_bought"
    unfolding demo_bought_def
    by (rule reachable.step [OF m])
       (simp add: demo_market_def demo_login_def handleLogin_def login_profile_def initial_state_def
         MOCK_DOCS_def displayDocs_def)
  have "reachable demo_library"
    unfolding demo_library_def
    by (rule reachable.step [OF b])
       (simp add: demo_bought_def demo_market_def demo_login_def handleBuy_def handleLogin_def
         login_profile_def initial_state_def MOCK_DOCS_def Let_def)
  with l m b show ?thesis by blast
qed

lemma binding_step_kept:
  assumes inv: "app_inv s" and en: "app_enabled s e" and b: "binding_of (documents s) i = Some x"
  shows "binding_of (documents (app_step s e)) i = Some x"
proof (cases e)
  case (Ev_Buy doc c)
  with en have fresh: "doc_id doc \<notin> set (library (app_user s))" and indoc: "doc \<in> set (documents s)"
    by auto
  from inv b have owned: "i \<in> set (library (app_user s))"
    using app_inv_unowned_unbound by fastforce
  show ?thesis
  proof (rule handleBuy_cases [where s = s and doc = doc and c = c])
    assume "handleBuy s doc c = (Buy_Completed,
         s\<lparr>app_user := buy_user_update (app_user s) doc,
           documents := bind_documents (documents s) (doc_id doc) (deviceId (app_user s)),
           view := LIBRARY\<rparr>)"
    with Ev_Buy fresh owned b show ?thesis
      by (auto simp: binding_of_bind_documents)
  qed (use Ev_Buy b in simp_all)
next
  case (Ev_Upload f newId)
  with en obtain d where d: "handleSubmit f = Some d" and fresh: "newId \<notin> doc_id ` set (documents s)"
    by auto
  from b have "i \<in> doc_id ` set (documents s)"
    by (auto dest!: binding_of_SomeD)
  with fresh have "newId \<noteq> i" by blast
  with Ev_Upload d b show ?thesis
    by (simp add: handleUpload_fields upload_document_def)
next
  case (Ev_Read doc)
  with b show ?thesis by (simp add: handleRead_fields)
qed (use b in simp_all)

lemma library_step_prefix:
  assumes inv: "app_inv s" and en: "app_enabled s e"
  shows "prefix (library (app_user s)) (library (app_user (app_step s e)))"
proof (cases e)
  case (Ev_Login key dev)
  with inv en show ?thesis by (simp add: app_inv_def)
next
  case (Ev_Buy doc c)
  then show ?thesis
    by (rule_tac handleBuy_cases [where s = s and doc = doc and c = c]) (simp_all add: buy_user_update_def)
next
  case (Ev_Upload f newId)
  then show ?thesis by (simp add: handleUpload_fields split: option.split)
next
  case (Ev_Read doc)
  then show ?thesis by (simp add: handleRead_fields)
qed simp_all

lemma abs_ledger_step:
  assumes inv: "app_inv s" and en: "app_enabled s e" and auth: "isAuthenticated s"
  shows "abs_ledger (app_step s e) = abs_ledger s
    \<or> (\<exists>doc. e = Ev_Buy doc True \<and> l_binding (abs_ledger s) (doc_id doc) = None
          \<and> doc_id doc \<notin> l_library (abs_ledger s) \<and> price doc \<le> l_balance (abs_ledger s)
          \<and> abs_ledger (app_step s e)
              = spec_purchase (abs_ledger s) (doc_id doc) (price doc) (deviceId (app_user s)))
    \<or> (\<exists>f d i. e = Ev_Upload f i \<and> handleSubmit f = Some d \<and> l_binding (abs_ledger s) i = None
          \<and> i \<notin> l_library (abs_ledger s)
          \<and> abs_ledger (app_step s e) = spec_publish (abs_ledger s) i (deviceId (app_user s)))"
proof (cases e)
  case (Ev_Login key dev)
  with en auth show ?thesis by simp
next
  case (Ev_Buy doc c)
  with en have fresh: "doc_id doc \<notin> set (library (app_user s))" and indoc: "doc \<in> set (documents s)"
    by auto
  show ?thesis
  proof (rule handleBuy_cases [where s = s and doc = doc and c = c])
    assume c: "c" and afford: "\<not> balance (app_user s) < price doc"
      and h: "handleBuy s doc c = (Buy_Completed,
         s\<lparr>app_user := buy_user_update (app_user s) doc,
           documents := bind_documents (documents s) (doc_id doc) (deviceId (app_user s)),
           view := LIBRARY\<rparr>)"
    from indoc have "doc_id doc \<in> doc_id ` set (documents s)" by blast
    then have "abs_ledger (app_step s e)
        = spec_purchase (abs_ledger s) (doc_id doc) (price doc) (deviceId (app_user s))"
      using Ev_Buy h by (simp add: abs_ledger_def spec_purchase_def buy_user_update_def
          binding_of_bind_documents_fun)
    moreover have "l_binding (abs_ledger s) (doc_id doc) = None"
      using app_inv_unowned_unbound [OF inv fresh] by (simp add: abs_ledger_def)
    ultimately show ?thesis
      using Ev_Buy c afford fresh by (auto simp: abs_ledger_def)
  qed (use Ev_Buy in simp_all)
next
  case (Ev_Upload f newId)
  with en obtain d where d: "handleSubmit f = Some d" and fresh: "newId \<notin> doc_id ` set (documents s)"
    by auto
  from inv fresh have notlib: "newId \<notin> set (library (app_user s))"
    by (auto simp: app_inv_def)
  have "abs_ledger (app_step s e) = spec_publish (abs_ledger s) newId (deviceId (app_user s))"
    using Ev_Upload d by (auto simp: abs_ledger_def spec_publish_def handleUpload_fields upload_document_def)
  moreover have "l_binding (abs_ledger s) newId = None"
    using binding_of_fresh [OF fresh] by (simp add: abs_ledger_def)
  ultimately show ?thesis using Ev_Upload d notlib by (auto simp: abs_ledger_def)
next
  case (Ev_Read doc)
  then show ?thesis by (simp add: abs_ledger_def handleRead_fields)
qed (simp_all add: abs_ledger_def)

lemmas demo_defs =
  demo_library_def demo_bought_def demo_market_def demo_login_def initial_state_def MOCK_DOCS_def
  guest_user_def handleLogin_def login_profile_def handleBuy_def buy_user_update_def
  bind_documents_def map_where_def displayDocs_def

lemma wf_document_bind:
  assumes "\<forall>d\<in>set docs. wf_document d"
  shows "\<forall>d\<in>set (bind_documents docs i dev). wf_document d"
proof
  fix d' assume "d' \<in> set (bind_documents docs i dev)"
  then show "wf_document d'"
    by (rule in_set_bind_documentsE) (use assms in \<open>auto simp: wf_document_def\<close>)
qed

lemma wf_catalogue_init: "\<forall>d\<in>set (documents initial_state). wf_document d"
  by (simp add: initial_state_def MOCK_DOCS_def wf_document_def)

lemma wf_catalogue_step:
  assumes "\<forall>d\<in>set (documents s). wf_document d" "app_enabled s e"
  shows "\<forall>d\<in>set (documents (app_step s e)). wf_document d"
proof (cases e)
  case (Ev_Buy doc c)
  show ?thesis
    by (rule handleBuy_cases [where s = s and doc = doc and c = c])
       (use assms(1) Ev_Buy wf_document_bind in simp_all)
next
  case (Ev_Upload f i)
  show ?thesis
  proof (cases "handleSubmit f")
    case (Some d)
    then have "0 \<le> up_price d" by (auto simp: handleSubmit_def form_constraints_ok_def split: if_splits)
    with Some Ev_Upload assms(1) show ?thesis
      by (simp add: handleUpload_def upload_document_def Let_def wf_document_def)
  qed (use Ev_Upload assms(1) in simp)
next
  case (Ev_Read doc)
  with assms(1) show ?thesis by (simp add: handleRead_def split: option.split)
qed (use assms(1) in simp_all)

section \<open>Properties of the storefront\<close>

text \<open>
  C4 (invariant).  In every reachable state the balance is not negative, the
  library lists each document once and only documents of the catalogue, and a
  catalogue entry carries a binding exactly when the user owns it, always to
  the session's device.
\<close>

theorem reachable_ledger:
  assumes "reachable s"
  shows "0 \<le> balance (app_user s) \<and> distinct (library (app_user s))
    \<and> set (library (app_user s)) \<subseteq> doc_id ` set (documents s)
    \<and> (\<forall>d\<in>set (documents s). boundDeviceId d \<noteq> None \<longleftrightarrow> doc_id d \<in> set (library (app_user s)))
    \<and> (\<forall>d\<in>set (documents s). boundDeviceId d = None \<or> boundDeviceId d = Some (deviceId (app_user s)))"
  using reachable_app_inv [OF assms] by (simp add: app_inv_def)

theorem reachable_ledger_witness:
  "reachable demo_library \<and> 0 \<le> balance (app_user demo_library) \<and> balance (app_user demo_library) = 420
   \<and> library (app_user demo_library) = [''2'']"
proof -
  have r: "reachable demo_library" using reachable_demo by blast
  show ?thesis using r reachable_ledger [OF r] by (simp add: demo_defs)
qed


text \<open>
  C3 (safety).  A binding, once set, is permanent: no enabled step of a
  reachable state changes or removes the device a document id is bound to.
\<close>

theorem binding_one_shot:
  assumes "reachable s" "app_enabled s e" "binding_of (documents s) i = Some x"
  shows "binding_of (documents (app_step s e)) i = Some x"
  using binding_step_kept [OF reachable_app_inv [OF assms(1)] assms(2,3)] .

theorem binding_one_shot_witness:
  "reachable demo_bought \<and> app_enabled demo_bought (Ev_SetView LIBRARY)
   \<and> binding_of (documents demo_bought) ''2'' = Some ''DEV-AAAA''
   \<and> binding_of (documents (app_step demo_bought (Ev_SetView LIBRARY))) ''2'' = Some ''DEV-AAAA''"
proof -
  have r: "reachable demo_bought" using reachable_demo by blast
  have en: "app_enabled demo_bought (Ev_SetView LIBRARY)" by (simp add: demo_defs Let_def)
  have b: "binding_of (documents demo_bought) ''2'' = Some ''DEV-AAAA''"
    by (simp add: demo_defs Let_def binding_of_def)
  show ?thesis using r en b binding_one_shot [OF r en b] by blast
qed

text \<open>
  C10 (invariant).  The library only grows: in every enabled step of a
  reachable state the old library is a prefix of the new one.
\<close>

theorem library_grows:
  assumes "reachable s" "app_enabled s e"
  shows "prefix (library (app_user s)) (library (app_user (app_step s e)))"
  using library_step_prefix [OF reachable_app_inv [OF assms(1)] assms(2)] .

theorem library_grows_witness:
  "reachable demo_market \<and> app_enabled demo_market (Ev_Buy (MOCK_DOCS ! 1) True)
   \<and> prefix [] (library (app_user (app_step demo_market (Ev_Buy (MOCK_DOCS ! 1) True))))
   \<and> library (app_user (app_step demo_market (Ev_Buy (MOCK_DOCS ! 1) True))) = [''2'']"
proof -
  have r: "reachable demo_market" using reachable_demo by blast
  have en: "app_enabled demo_market (Ev_Buy (MOCK_DOCS ! 1) True)" by (simp add: demo_defs)
  show ?thesis using r en library_grows [OF r en] by (simp add: demo_defs Let_def)
qed

text \<open>
  C9 (safety).  Within a session the device check never refuses the user's
  own documents: every read or quick export the library view offers in a
  reachable state passes, because every binding in the catalogue is to the
  session's device.
\<close>

theorem own_library_opens:
  assumes "reachable s" "app_enabled s (Ev_Read d)"
  shows "fst (handleRead s d) = Read_Opened \<and> handleQuickDownload (app_user s) d \<noteq> QD_Denied
    \<and> currentReadingDoc (app_step s (Ev_Read d)) = Some d"
proof -
  from reachable_app_inv [OF assms(1)] assms(2)
  have "boundDeviceId d = None \<or> boundDeviceId d = Some (deviceId (app_user s))"
    by (auto simp: app_inv_def)
  then show ?thesis
    by (auto simp: handleRead_def handleQuickDownload_def)
qed

theorem own_library_opens_witness:
  "reachable demo_library \<and> app_enabled demo_library (Ev_Read (documents demo_library ! 1))
   \<and> fst (handleRead demo_library (documents demo_library ! 1)) = Read_Opened"
proof -
  have r: "reachable demo_library" using reachable_demo by blast
  have en: "app_enabled demo_library (Ev_Read (documents demo_library ! 1))"
    by (simp add: demo_defs Let_def)
  show ?thesis using r en own_library_opens [OF r en] by blast
qed

text \<open>
  C5 (refinement).  Every enabled step of a reachable, logged-in state either
  leaves the specification's ledger unchanged, or is the specification's
  purchase of a document that is neither owned nor bound and is affordable, or
  its publish of a fresh, unbound document; in both the binding goes to the
  session's device.
\<close>

theorem ledger_refinement:
  assumes "reachable s" "app_enabled s e" "isAuthenticated s"
  shows "abs_ledger (app_step s e) = abs_ledger s
    \<or> (\<exists>doc. e = Ev_Buy doc True \<and> l_binding (abs_ledger s) (doc_id doc) = None
          \<and> doc_id doc \<notin> l_library (abs_ledger s) \<and> price doc \<le> l_balance (abs_ledger s)
          \<and> abs_ledger (app_step s e)
              = spec_purchase (abs_ledger s) (doc_id doc) (price doc) (deviceId (app_user s)))
    \<or> (\<exists>f d i. e = Ev_Upload f i \<and> handleSubmit f = Some d \<and> l_binding (abs_ledger s) i = None
          \<and> i \<notin> l_library (abs_ledger s)
          \<and> abs_ledger (app_step s e) = spec_publish (abs_ledger s) i (deviceId (app_user s)))"
  using abs_ledger_step [OF reachable_app_inv [OF assms(1)] assms(2,3)] .

theorem ledger_refinement_witness:
  "reachable demo_market \<and> app_enabled demo_market (Ev_Buy (MOCK_DOCS ! 1) True)
   \<and> isAuthenticated demo_market
   \<and> abs_ledger (app_step demo_market (Ev_Buy (MOCK_DOCS ! 1) True))
       = spec_purchase (abs_ledger demo_market) ''2'' 80 ''DEV-AAAA''"
proof -
  have r: "reachable demo_market" using reachable_demo by blast
  have en: "app_enabled demo_market (Ev_Buy (MOCK_DOCS ! 1) True)" by (simp add: demo_defs)
  have a: "isAuthenticated demo_market" by (simp add: demo_defs)
  have ne: "abs_ledger (app_step demo_market (Ev_Buy (MOCK_DOCS ! 1) True)) \<noteq> abs_ledger demo_market"
    by (simp add: demo_defs abs_ledger_def Let_def)
  have dev: "deviceId (app_user demo_market) = ''DEV-AAAA''" by (simp add: demo_defs)
  from ledger_refinement [OF r en a] ne dev
  have "abs_ledger (app_step demo_market (Ev_Buy (MOCK_DOCS ! 1) True))
       = spec_purchase (abs_ledger demo_market) (doc_id (MOCK_DOCS ! 1)) (price (MOCK_DOCS ! 1)) ''DEV-AAAA''"
    by auto
  then show ?thesis using r en a by (simp add: MOCK_DOCS_def)
qed

text \<open>
  C33 (type).  Every entry of the catalogue in every reachable state is a
  well-formed document: its price is at least 0, its rating between 0 and 5,
  it has a summary, and its \<open>purchased\<close> flag is still false, as no handler
  sets it.
\<close>

theorem catalogue_well_typed:
  assumes "reachable s" "d \<in> set (documents s)"
  shows "wf_document d"
proof -
  from assms(1) have "\<forall>d\<in>set (documents s). wf_document d"
  proof (induction rule: reachable.induct)
    case init
    show ?case by (rule wf_catalogue_init)
  next
    case (step s e)
    from step.IH step.hyps(2) show ?case by (rule wf_catalogue_step)
  qed
  with assms(2) show ?thesis by blast
qed

theorem catalogue_well_typed_witness:
  "reachable demo_library \<and> documents demo_library ! 1 \<in> set (documents demo_library)
   \<and> wf_document (documents demo_library ! 1)
   \<and> rating (documents demo_library ! 1) = 24 / 5"
proof -
  have r: "reachable demo_library" using reachable_demo by blast
  have m: "documents demo_library ! 1 \<in> set (documents demo_library)" by (simp add: demo_defs)
  have "rating (documents demo_library ! 1) = 24 / 5" by (simp add: demo_defs)
  with r m catalogue_well_typed [OF r m] show ?thesis by blast
qed

end
