(* ===== verification/Reader_Export.thy ===== *)
theory Reader_Export
  imports Device_Id Marketplace
begin

text \<open>
  The reader's export, \<open>handleDownload\<close> of \<open>src/components/Reader.tsx\<close>
  (lines 22--53).  It builds a text from the document and the session, trims
  it, and saves it under the name
  \<open>SECURE_<title with whitespace runs replaced by _>_<first four characters of
  the device id>.txt\<close>.  It performs no device check of its own: the reader is
  only shown for a document \<open>handleRead\<close> let through.  The time stamp
  (\<open>new Date().toISOString()\<close>) is an argument.  JavaScript's \<open>\s\<close> and
  \<open>trim\<close> are modelled on byte characters: tab to carriage return, space and
  the no-break space 0xA0; \<open>toUpperCase\<close> on the ASCII letters, as in
  \<open>Device_Id\<close>.
\<close>

definition js_is_space :: "char \<Rightarrow> bool" where
  "js_is_space c \<longleftrightarrow> (9 \<le> (of_char c :: nat) \<and> (of_char c :: nat) \<le> 13) \<or> of_char c = (32 :: nat)
     \<or> of_char c = (160 :: nat)"

text \<open>\<open>s.replace(/\s+/g, '_')\<close>: the flag says whether the previous character was whitespace.\<close>

fun replace_ws_runs :: "bool \<Rightarrow> string \<Rightarrow> string" where
  "replace_ws_runs r [] = []"
| "replace_ws_runs r (c # cs) =
     (if js_is_space c then (if r then replace_ws_runs True cs else CHR ''_'' # replace_ws_runs True cs)
      else c # replace_ws_runs False cs)"

definition js_trim :: "string \<Rightarrow> string" where
  "js_trim s = rev (dropWhile js_is_space (rev (dropWhile js_is_space s)))"

text \<open>Line 48: the file name.\<close>

definition reader_file_name :: "user \<Rightarrow> document_item \<Rightarrow> string" where
  "reader_file_name u doc =
     ''SECURE_'' @ replace_ws_runs False (title doc) @ ''_'' @ take 4 (deviceId u) @ ''.txt''"

text \<open>
  Lines 24--41: the text between the template's opening line break (line 23)
  and its closing indentation (line 42).
\<close>

definition reader_text :: "user \<Rightarrow> document_item \<Rightarrow> string \<Rightarrow> string" where
  "reader_text u doc timestamp =
     ''[SECURE DOCUMENT - DO NOT DISTRIBUTE]'' @ newline
     @ ''DEVICE ID BINDING: '' @ deviceId u @ newline
     @ ''USER: '' @ user_name u @ newline
     @ ''TIMESTAMP: '' @ timestamp @ newline @ newline
     @ ''--- DOCUMENT: '' @ js_to_upper (title doc) @ '' ---'' @ newline
     @ ''AUTHOR: '' @ author doc @ newline
     @ ''TYPE: '' @ doc_type_str (dtype doc) @ newline @ newline
     @ ''--- DESCRIPTION ---'' @ newline
     @ description doc @ newline @ newline
     @ ''--- AI SUMMARY ---'' @ newline
     @ (case aiSummary doc of Some t \<Rightarrow> if t \<noteq> [] then t else ''N/A'' | None \<Rightarrow> ''N/A'') @ newline @ newline
     @ ''--- CONTENT SIMULATION ---'' @ newline
     @ ''Lorem ipsum dolor sit amet, consectetur adipiscing elit. '' @ newline
     @ ''(This is a generated file for demonstration purposes in StudyVerse 3D)''"

text \<open>Lines 23--42: the template literal, which starts with a line break and ends indented.\<close>

definition reader_raw_content :: "user \<Rightarrow> document_item \<Rightarrow> string \<Rightarrow> string" where
  "reader_raw_content u doc timestamp = newline @ reader_text u doc timestamp @ newline @ ''    ''"

definition handleDownload :: "user \<Rightarrow> document_item \<Rightarrow> string \<Rightarrow> download_file" where
  "handleDownload u doc timestamp =
     \<lparr>file_name = reader_file_name u doc, file_content = js_trim (reader_raw_content u doc timestamp)\<rparr>"

section \<open>Lemmas\<close>

lemma take_device_id_of_hash [simp]: "take 4 (device_id_of_hash h) = ''DEV-''"
  by (simp add: device_id_of_hash_def)

text \<open>Trimming strips exactly the whitespace around a text that starts and ends with a visible character.\<close>

lemma js_trim_strip:
  assumes "\<forall>c\<in>set a. js_is_space c" "\<forall>c\<in>set b. js_is_space c"
    "x \<noteq> []" "\<not> js_is_space (hd x)" "\<not> js_is_space (last x)"
  shows "js_trim (a @ x @ b) = x"
proof -
  have l: "dropWhile js_is_space (a @ x @ b) = x @ b"
    using assms(1,3,4) by (simp add: dropWhile_append2 dropWhile_eq_self_iff)
  have "dropWhile js_is_space (rev b @ rev x) = dropWhile js_is_space (rev x)"
    by (rule dropWhile_append2) (use assms(2) in auto)
  also have "\<dots> = rev x" using assms(3,5) by (simp add: dropWhile_eq_self_iff hd_rev)
  finally have "dropWhile js_is_space (rev b @ rev x) = rev x" .
  with l show ?thesis by (simp add: js_trim_def)
qed

section \<open>Properties of the export\<close>

text \<open>
  C21 (functional).  The device tag in the name of an exported file is the
  first four characters of the identifier, which is \<open>DEV-\<close> for every
  identifier \<open>getDeviceId\<close> generates: files exported on two different devices
  get the same name, so the name does not identify the device.
\<close>

theorem reader_file_name_device_blind:
  "reader_file_name (u\<lparr>deviceId := device_id_of_hash h1\<rparr>) doc
     = reader_file_name (u\<lparr>deviceId := device_id_of_hash h2\<rparr>) doc
   \<and> reader_file_name (u\<lparr>deviceId := device_id_of_hash h1\<rparr>) doc
     = ''SECURE_'' @ replace_ws_runs False (title doc) @ ''_DEV-.txt''"
  by (simp add: reader_file_name_def)

text \<open>
  C34 (functional).  The file the reader exports holds the template's text
  exactly, without its opening line break and closing indentation, and it
  opens with the security header and the device the file was exported on.
\<close>

theorem reader_export_content:
  "file_content (handleDownload u doc t) = reader_text u doc t
   \<and> take (length (''[SECURE DOCUMENT - DO NOT DISTRIBUTE]'' @ newline @ ''DEVICE ID BINDING: '' @ deviceId u))
          (file_content (handleDownload u doc t))
       = ''[SECURE DOCUMENT - DO NOT DISTRIBUTE]'' @ newline @ ''DEVICE ID BINDING: '' @ deviceId u"
proof -
  have "js_trim (newline @ reader_text u doc t @ newline @ ''    '') = reader_text u doc t"
    by (rule js_trim_strip) (simp_all add: newline_def js_is_space_def reader_text_def)
  then have c: "file_content (handleDownload u doc t) = reader_text u doc t"
    by (simp add: handleDownload_def reader_raw_content_def)
  have "\<exists>rest. reader_text u doc t
      = (''[SECURE DOCUMENT - DO NOT DISTRIBUTE]'' @ newline @ ''DEVICE ID BINDING: '' @ deviceId u) @ rest"
    by (simp add: reader_text_def)
  then obtain rest where r: "reader_text u doc t
      = (''[SECURE DOCUMENT - DO NOT DISTRIBUTE]'' @ newline @ ''DEVICE ID BINDING: '' @ deviceId u) @ rest" ..
  have "take (length xs) (xs @ ys) = xs" for xs ys :: string by simp
  then show ?thesis by (simp only: c r simp_thms)
qed

end
