(* ===== verification/Gemini_Service.thy ===== *)
theory Gemini_Service
  imports Upload_Form
begin

text \<open>
  The AI helper, \<open>src/services/geminiService.ts\<close>: \<open>analyzeDocument\<close> (lines
  7--56) and \<open>getStudyTip\<close> (lines 58--68).  Both send one request to the
  Gemini model and fall back to constant answers on every failure.

  The network is a function \<open>api\<close> from the request to its reply: either the
  call threw (\<open>Api_Failed\<close>: network error, refused key, quota) or it returned
  a response whose \<open>text\<close> is a string or \<open>undefined\<close>.  \<open>JSON.parse\<close>
  together with the three field reads is a parameter \<open>parse\<close> that returns
  \<open>None\<close> where it throws; the model's answer is untrusted, so \<open>parse\<close> is
  arbitrary.  Every \<open>throw\<close> and every exception is a branch to the \<open>catch\<close>
  block.  Vietnamese literals are transliterated to ASCII, as in the catalogue.
\<close>

record gemini_request =
  g_model :: string
  g_contents :: string
  g_json :: bool

datatype api_reply = Api_Failed | Api_Replied "string option"

type_synonym gemini_api = "gemini_request \<Rightarrow> api_reply"

definition gemini_model :: string where
  "gemini_model = ''gemini-3-flash-preview''"

text \<open>Lines 11--19: the prompt, a template literal with its line breaks and indentation.\<close>

definition analyze_prompt :: "string \<Rightarrow> string \<Rightarrow> string" where
  "analyze_prompt docTitle rawContent =
     newline
     @ ''      I am uploading a study document titled \"'' @ docTitle @ ''\".'' @ newline
     @ ''      The user provided this brief description/content snippet: \"'' @ rawContent @ ''\".'' @ newline
     @ ''      '' @ newline
     @ ''      Please analyze this and return a JSON object with:'' @ newline
     @ ''      1. A short, engaging 2-sentence summary suitable for a store listing.'' @ newline
     @ ''      2. A list of 3-5 relevant hashtags/tags (e.g., #Math, #History, #Grade12).'' @ newline
     @ ''      3. A suggested price in fictional currency (Credits) between 10 and 500. If it looks like a simple note, keep it low. If complex, higher.'' @ newline
     @ ''    ''"

text \<open>Lines 21--36: the request, with the JSON response schema.\<close>

definition analyze_request :: "string \<Rightarrow> string \<Rightarrow> gemini_request" where
  "analyze_request docTitle rawContent =
     \<lparr>g_model = gemini_model, g_contents = analyze_prompt docTitle rawContent, g_json = True\<rparr>"

text \<open>
  Lines 7--56.  \<open>if (response.text)\<close> is JavaScript truthiness: a missing or
  empty text throws \<open>No response from AI\<close>, which the \<open>catch\<close> turns into the
  fallback of \<open>Upload_Form.analyze_fallback\<close> (lines 48--55).
\<close>

definition analyzeDocument ::
  "gemini_api \<Rightarrow> (string \<Rightarrow> ai_result option) \<Rightarrow> string \<Rightarrow> string \<Rightarrow> ai_result" where
  "analyzeDocument api parse docTitle rawContent =
     (case api (analyze_request docTitle rawContent) of
        Api_Failed \<Rightarrow> analyze_fallback
      | Api_Replied t \<Rightarrow>
          (case t of
             None \<Rightarrow> analyze_fallback
           | Some answer \<Rightarrow>
               if answer = [] then analyze_fallback
               else (case parse answer of None \<Rightarrow> analyze_fallback | Some d \<Rightarrow> d)))"

text \<open>Line 62: the request for a study tip.\<close>

definition tip_request :: "string \<Rightarrow> gemini_request" where
  "tip_request docTitle =
     \<lparr>g_model = gemini_model,
      g_contents = ''Give me a single, short, and very specific study tip for the subject: \"''
        @ docTitle @ ''\". Be encouraging and cool. Max 30 words.'',
      g_json = False\<rparr>"

definition tip_no_text :: string where
  "tip_no_text = ''Hay tap trung va ghi chu can than nhe!''"

definition tip_on_error :: string where
  "tip_on_error = ''Hay hoc tap cham chi!''"

text \<open>Lines 58--68: \<open>response.text || default\<close>, and another default in the \<open>catch\<close>.\<close>

definition getStudyTip :: "gemini_api \<Rightarrow> string \<Rightarrow> string" where
  "getStudyTip api docTitle =
     (case api (tip_request docTitle) of
        Api_Failed \<Rightarrow> tip_on_error
      | Api_Replied t \<Rightarrow> (case t of Some s \<Rightarrow> if s \<noteq> [] then s else tip_no_text | None \<Rightarrow> tip_no_text))"

text \<open>A service that is down: every request throws.\<close>

definition offline_api :: gemini_api where
  "offline_api r = Api_Failed"

section \<open>Lemmas\<close>

lemma analyzeDocument_cases:
  obtains (fallback) "analyzeDocument api parse t c = analyze_fallback"
  | (parsed) answer where "api (analyze_request t c) = Api_Replied (Some answer)" "answer \<noteq> []"
      "parse answer = Some (analyzeDocument api parse t c)"
proof (cases "\<exists>answer d. api (analyze_request t c) = Api_Replied (Some answer) \<and> answer \<noteq> []
                  \<and> parse answer = Some d")
  case True
  then obtain answer d where "api (analyze_request t c) = Api_Replied (Some answer)" "answer \<noteq> []"
    "parse answer = Some d" by blast
  with parsed show ?thesis by (simp add: analyzeDocument_def)
next
  case False
  then have "analyzeDocument api parse t c = analyze_fallback"
    by (auto simp: analyzeDocument_def split: api_reply.split option.split)
  with fallback show ?thesis .
qed

lemma getStudyTip_ne: "getStudyTip api t \<noteq> []"
  by (simp add: getStudyTip_def tip_on_error_def tip_no_text_def split: api_reply.split option.split)

section \<open>Properties of the helper\<close>

text \<open>
  C25 (error).  An analysis the form starts always finishes, whatever the
  service does: the form leaves the analysing state with its title and
  description unchanged, and the result is either the fallback or an answer
  the service sent and the parser accepted.  When the service fails, the form
  then submits the fallback summary and tags at the price 50.
\<close>

theorem analysis_completes:
  fixes api :: gemini_api and parse :: "string \<Rightarrow> ai_result option"
  assumes "handleAIAnalyze_start f = Some f1"
  defines "f2 \<equiv> handleAIAnalyze_finish f1 (analyzeDocument api parse (f_title f) (f_description f))"
  shows "\<not> f_isAnalyzing f2 \<and> f_title f2 = f_title f \<and> f_description f2 = f_description f
    \<and> (analyzeDocument api parse (f_title f) (f_description f) = analyze_fallback
       \<or> (\<exists>answer. api (analyze_request (f_title f) (f_description f)) = Api_Replied (Some answer)
              \<and> parse answer = Some (analyzeDocument api parse (f_title f) (f_description f))))
    \<and> (api (analyze_request (f_title f) (f_description f)) = Api_Failed \<longrightarrow>
        handleSubmit f2 = Some
          \<lparr>up_title = f_title f, up_description = f_description f, up_price = 50, up_type = f_type f,
           up_tags = [''#TaiLieu'', ''#HocTap''], up_aiSummary = ''Tai lieu hoc tap huu ich cho ban.'',
           up_thumbnailUrl = ''https://picsum.photos/seed/'' @ f_title f @ ''/400/300''\<rparr>)"
proof -
  from assms(1) have f1: "f1 = f\<lparr>f_isAnalyzing := True\<rparr>" "f_title f \<noteq> []" "f_description f \<noteq> []"
    by (auto simp: handleAIAnalyze_start_def split: if_splits)
  have alt: "analyzeDocument api parse (f_title f) (f_description f) = analyze_fallback
       \<or> (\<exists>answer. api (analyze_request (f_title f) (f_description f)) = Api_Replied (Some answer)
              \<and> parse answer = Some (analyzeDocument api parse (f_title f) (f_description f)))"
    by (rule analyzeDocument_cases [of api parse "f_title f" "f_description f"]) auto
  show ?thesis
    using f1 alt
    by (auto simp: f2_def handleAIAnalyze_finish_def analyzeDocument_def analyze_fallback_def
        handleSubmit_def form_constraints_ok_def)
qed

theorem analysis_completes_witness:
  "handleAIAnalyze_start sample_form = Some (sample_form\<lparr>f_isAnalyzing := True\<rparr>)
   \<and> up_price (the (handleSubmit (handleAIAnalyze_finish (sample_form\<lparr>f_isAnalyzing := True\<rparr>)
        (analyzeDocument offline_api (\<lambda>_. None) (f_title sample_form) (f_description sample_form))))) = 50"
proof -
  have h: "handleAIAnalyze_start sample_form = Some (sample_form\<lparr>f_isAnalyzing := True\<rparr>)"
    by (simp add: handleAIAnalyze_start_def sample_form_def initial_upload_form_def)
  have "offline_api (analyze_request (f_title sample_form) (f_description sample_form)) = Api_Failed"
    by (simp add: offline_api_def)
  with analysis_completes [OF h, of offline_api "\<lambda>_. None"]
  have e: "handleSubmit (handleAIAnalyze_finish (sample_form\<lparr>f_isAnalyzing := True\<rparr>)
        (analyzeDocument offline_api (\<lambda>_. None) (f_title sample_form) (f_description sample_form)))
      = Some \<lparr>up_title = f_title sample_form, up_description = f_description sample_form, up_price = 50,
           up_type = f_type sample_form, up_tags = [''#TaiLieu'', ''#HocTap''],
           up_aiSummary = ''Tai lieu hoc tap huu ich cho ban.'',
           up_thumbnailUrl = ''https://picsum.photos/seed/'' @ f_title sample_form @ ''/400/300''\<rparr>"
    by blast
  show ?thesis by (simp only: h e option.sel upload_data.select_convs simp_thms)
qed

end
