(* ===== verification/Page_View.thy ===== *)
theory Page_View
  imports App_Machine Reader_Export Gemini_Service
begin

text \<open>
  What the storefront renders, and which of its buttons the user can press.
  \<open>App\<close> (\<open>src/App.tsx\<close>, lines 158--201) shows the login screen while not
  authenticated, and otherwise the navigation bar (\<open>Navbar.tsx\<close>), one body
  chosen by the view (the landing page \<open>Hero.tsx\<close>, the market or the library
  view of \<open>Marketplace.tsx\<close>, the upload form), and the reader
  (\<open>Reader.tsx\<close>) over all of it while a document is open.  Each render is a
  function from the state to a record of what is shown; \<open>page_buttons\<close> lists
  the buttons a pointer can reach, and \<open>button_event\<close> says which event of
  \<open>App_Machine\<close> each one fires.  The reader is a full-screen layer
  (\<open>fixed inset-0\<close>, layer 60, above the navigation bar's layer 50), so while
  it is open only its own two buttons can be pressed.

  The layout is responsive: below Tailwind's \<open>md\<close> breakpoint (768 pixels)
  the navigation menu (\<open>Navbar.tsx\<close> line 36, \<open>hidden md:flex\<close>) and the
  reader's sidebar (\<open>Reader.tsx\<close> line 118) are not displayed.  The renders
  take \<open>wide\<close>, whether the viewport is at least that wide, and record what is
  visible.  Markup, classes and images are left out; texts are kept where a
  property reads them.  Icons and Vietnamese texts are named or transliterated.  The
  reader's \<open>tip\<close> state (line 12) is the argument \<open>tip\<close>: empty until
  \<open>getStudyTip\<close> resolves, then its answer.
\<close>

section \<open>Numbers as text\<close>

text \<open>\<open>String(n)\<close> for an integer, as a template literal prints a price or a balance.\<close>

definition js_number_string :: "int \<Rightarrow> string" where
  "js_number_string n = (if n < 0 then ''-'' else []) @ js_to_string_radix 10 (nat \<bar>n\<bar>)"

text \<open>Reading decimal digits back: the inverse the roundtrip property is stated with.\<close>

definition parse_dec :: "string \<Rightarrow> nat" where
  "parse_dec s = foldl (\<lambda>acc c. 10 * acc + (of_char c - 48)) 0 s"

section \<open>Catalogue cards, \<open>Marketplace.tsx\<close>\<close>

text \<open>Line 119: the buy button's label.\<close>

definition price_label :: "int \<Rightarrow> string" where
  "price_label p = (if p = 0 then ''Mien Phi'' else js_number_string p @ '' CR'')"

datatype card_button = Btn_QuickDownload | Btn_Read | Btn_Buy string

record card_view =
  cv_doc :: document_item
  cv_type_badge :: string
  cv_locked :: bool
  cv_summary :: "string option"
  cv_tags :: "string list"
  cv_author :: string
  cv_buttons :: "card_button list"

text \<open>
  Lines 62--123: one card.  The badge \<open>Locked\<close> (line 69) needs the library view
  and a truthy binding; the summary (line 74) a truthy summary; the buttons
  (lines 98--121) depend on the view.
\<close>

definition render_card :: "bool \<Rightarrow> document_item \<Rightarrow> card_view" where
  "render_card isLibrary doc =
     \<lparr>cv_doc = doc, cv_type_badge = doc_type_str (dtype doc),
      cv_locked = (isLibrary \<and> js_truthy (boundDeviceId doc)),
      cv_summary = (if js_truthy (aiSummary doc) then aiSummary doc else None),
      cv_tags = tags doc, cv_author = author doc,
      cv_buttons = (if isLibrary then [Btn_QuickDownload, Btn_Read]
                    else [Btn_Buy (price_label (price doc))])\<rparr>"

record market_view =
  mv_heading :: string
  mv_drm_notice :: "device_id option"
  mv_empty :: bool
  mv_cards :: "card_view list"

text \<open>Lines 38--128: heading, the library's notice naming the device, and the cards or the empty message.\<close>

definition render_marketplace :: "document_item list \<Rightarrow> user \<Rightarrow> bool \<Rightarrow> market_view" where
  "render_marketplace docs u isLibrary =
     \<lparr>mv_heading = (if isLibrary then ''Kho Tai Lieu Cua Toi'' else ''Cho Tai Lieu''),
      mv_drm_notice = (if isLibrary then Some (deviceId u) else None),
      mv_empty = (displayDocs docs u isLibrary = []),
      mv_cards = map (render_card isLibrary) (displayDocs docs u isLibrary)\<rparr>"

section \<open>Navigation bar, \<open>Navbar.tsx\<close>\<close>

text \<open>Lines 11--16.\<close>

definition navItems :: "(view_state \<times> string) list" where
  "navItems = [(HOME, ''Trang Chu''), (MARKET, ''Cho Tai Lieu''), (LIBRARY, ''Kho Cua Toi''),
               (UPLOAD, ''Ban Tai Lieu'')]"

record nav_item_view =
  ni_target :: view_state
  ni_label :: string
  ni_active :: bool

record navbar_view =
  nv_items :: "nav_item_view list"
  nv_menu_visible :: bool
  nv_balance :: string

text \<open>
  Lines 18--64: the menu with the current view highlighted (line 42), shown on
  wide viewports only (line 36), and the balance (line 56).
\<close>

definition render_navbar :: "view_state \<Rightarrow> user \<Rightarrow> bool \<Rightarrow> navbar_view" where
  "render_navbar currentView u wide =
     \<lparr>nv_items = map (\<lambda>(i, l). \<lparr>ni_target = i, ni_label = l, ni_active = (currentView = i)\<rparr>) navItems,
      nv_menu_visible = wide,
      nv_balance = js_number_string (balance u) @ '' Credits''\<rparr>"

section \<open>Reader, \<open>Reader.tsx\<close>\<close>

definition reader_tip_placeholder :: string where
  "reader_tip_placeholder = ''Dang phan tich bao mat...''"

record reader_view =
  rv_watermark :: "string list"
  rv_title :: string
  rv_byline :: string
  rv_warning :: string
  rv_description :: string
  rv_sidebar_visible :: bool
  rv_tip :: string

text \<open>
  Lines 55--138: twenty watermark lines naming the device and the user
  (lines 59--63), the title, the author and type (line 96), the tracking
  warning naming the device (line 100), the description (line 104) and the
  study tip or its placeholder (line 121) in the sidebar, which wide viewports
  display (line 118).
\<close>

definition render_reader :: "document_item \<Rightarrow> user \<Rightarrow> string \<Rightarrow> bool \<Rightarrow> reader_view" where
  "render_reader doc u tip wide =
     \<lparr>rv_watermark = replicate 20 (deviceId u @ '' - DO NOT COPY - '' @ user_name u),
      rv_title = title doc,
      rv_byline = ''Tac gia: '' @ author doc @ '' | '' @ doc_type_str (dtype doc),
      rv_warning = ''Canh bao: Tai lieu nay duoc gan ma theo doi '' @ deviceId u
        @ ''. Moi hanh vi sao chep trai phep se bi phat hien.'',
      rv_description = description doc,
      rv_sidebar_visible = wide,
      rv_tip = (if tip \<noteq> [] then tip else reader_tip_placeholder)\<rparr>"

section \<open>The page, \<open>App.tsx\<close>\<close>

datatype body_view = Body_Home | Body_Market market_view | Body_Library market_view | Body_Upload

datatype page_view = Login_Page | Main_Page navbar_view body_view "reader_view option"

text \<open>Lines 158--201.\<close>

definition render_app :: "app_state \<Rightarrow> string \<Rightarrow> bool \<Rightarrow> page_view" where
  "render_app s tip wide =
     (if \<not> isAuthenticated s then Login_Page
      else Main_Page (render_navbar (view s) (app_user s) wide)
        (case view s of
           HOME \<Rightarrow> Body_Home
         | MARKET \<Rightarrow> Body_Market (render_marketplace (documents s) (app_user s) False)
         | LIBRARY \<Rightarrow> Body_Library (render_marketplace (documents s) (app_user s) True)
         | UPLOAD \<Rightarrow> Body_Upload)
        (map_option (\<lambda>d. render_reader d (app_user s) tip wide) (currentReadingDoc s)))"

subsection \<open>Buttons and the events they fire\<close>

datatype ui_button =
    UB_Nav view_state
  | UB_Buy document_item
  | UB_Read document_item
  | UB_Quick document_item
  | UB_Export
  | UB_Close
  | UB_Submit

definition card_ui_buttons :: "card_view \<Rightarrow> ui_button list" where
  "card_ui_buttons c =
     map (\<lambda>b. case b of Btn_QuickDownload \<Rightarrow> UB_Quick (cv_doc c) | Btn_Read \<Rightarrow> UB_Read (cv_doc c)
                | Btn_Buy l \<Rightarrow> UB_Buy (cv_doc c)) (cv_buttons c)"

text \<open>
  The landing page's two buttons (\<open>Hero.tsx\<close> lines 44 and 50), the cards'
  buttons, and the upload form's cancel (\<open>setView('HOME')\<close>, \<open>App.tsx\<close> line
  189, \<open>UploadModal.tsx\<close> line 126) and submit (line 132) buttons.
\<close>

fun body_buttons :: "body_view \<Rightarrow> ui_button list" where
  "body_buttons Body_Home = [UB_Nav MARKET, UB_Nav UPLOAD]"
| "body_buttons (Body_Market m) = concat (map card_ui_buttons (mv_cards m))"
| "body_buttons (Body_Library m) = concat (map card_ui_buttons (mv_cards m))"
| "body_buttons Body_Upload = [UB_Nav HOME, UB_Submit]"

text \<open>
  The logo (\<open>Navbar.tsx\<close> line 25) and, when displayed, the menu (line 40),
  then the body; with
  the reader open, its export and close buttons (\<open>Reader.tsx\<close> lines 74 and 79)
  only.  The login screen's controls are \<open>Login_Gate.login_ui_offers\<close>.
\<close>

fun page_buttons :: "page_view \<Rightarrow> ui_button list" where
  "page_buttons Login_Page = []"
| "page_buttons (Main_Page nav body None) =
     UB_Nav HOME # (if nv_menu_visible nav then map (UB_Nav \<circ> ni_target) (nv_items nav) else [])
       @ body_buttons body"
| "page_buttons (Main_Page nav body (Some r)) = [UB_Export, UB_Close]"

text \<open>
  The event a button fires.  Buying asks \<open>window.confirm\<close>, so it fires the
  purchase with either answer.  The browser fires the form's submit only when
  the form is valid (\<open>Upload_Form.handleSubmit\<close> is not \<open>None\<close>), with a random
  identifier assumed fresh.  The reader's export acts inside the reader
  (\<open>Reader_Export.handleDownload\<close>) and fires no event of the application.
\<close>

fun button_event :: "app_state \<Rightarrow> ui_button \<Rightarrow> app_event \<Rightarrow> bool" where
  "button_event s (UB_Nav v) e = (e = Ev_SetView v)"
| "button_event s (UB_Buy d) e = (e = Ev_Buy d True \<or> e = Ev_Buy d False)"
| "button_event s (UB_Read d) e = (e = Ev_Read d)"
| "button_event s (UB_Quick d) e = (e = Ev_QuickDownload d)"
| "button_event s UB_Export e = False"
| "button_event s UB_Close e = (e = Ev_CloseReader)"
| "button_event s UB_Submit e =
     (case e of
        Ev_Upload f i \<Rightarrow> handleSubmit f \<noteq> None \<and> i \<notin> set (map doc_id (documents s))
      | _ \<Rightarrow> False)"

section \<open>Lemmas\<close>

lemma card_ui_buttons_render [simp]:
  "card_ui_buttons (render_card True d) = [UB_Quick d, UB_Read d]"
  "card_ui_buttons (render_card False d) = [UB_Buy d]"
  by (simp_all add: card_ui_buttons_def render_card_def)

lemma cards_buttons_iff:
  "b \<in> set (concat (map card_ui_buttons (map (render_card L) ds)))
     \<longleftrightarrow> (\<exists>d\<in>set ds. if L then b = UB_Quick d \<or> b = UB_Read d else b = UB_Buy d)"
  by (cases L) auto

lemma parse_dec_digits:
  "\<forall>d\<in>set ds. d < 10 \<Longrightarrow>
    foldl (\<lambda>acc c. 10 * acc + (of_char c - 48)) a (map js_digit_char ds) = foldl (\<lambda>acc d. 10 * acc + d) a ds"
  by (induction ds arbitrary: a) (simp_all add: of_char_js_digit_char)

lemma parse_dec_number_string: "0 \<le> n \<Longrightarrow> parse_dec (js_number_string n) = nat n"
proof -
  assume "0 \<le> n"
  have "\<forall>d\<in>set (radix_digits 10 (nat n)). d < 10" using radix_digits_less [of 10] by auto
  with \<open>0 \<le> n\<close> show ?thesis
    using radix_digits_value [of 10 "nat n"]
    by (simp add: parse_dec_def js_number_string_def js_to_string_radix_def parse_dec_digits)
qed

lemma js_digit_char_not_minus: "d < 10 \<Longrightarrow> js_digit_char d \<noteq> CHR ''-''"
proof
  assume "d < 10" "js_digit_char d = CHR ''-''"
  then have "(of_char (js_digit_char d) :: nat) = of_char (CHR ''-'')" by simp
  with \<open>d < 10\<close> show False by (simp add: of_char_js_digit_char)
qed

lemma number_string_nonneg:
  assumes "0 \<le> n"
  shows "js_number_string n \<noteq> [] \<and> CHR ''-'' \<notin> set (js_number_string n)
    \<and> parse_dec (js_number_string n) = nat n"
proof -
  have lt: "\<forall>d\<in>set (radix_digits 10 (nat n)). d < 10" using radix_digits_less [of 10] by auto
  have "CHR ''-'' \<notin> js_digit_char ` set (radix_digits 10 (nat n))"
  proof
    assume "CHR ''-'' \<in> js_digit_char ` set (radix_digits 10 (nat n))"
    then obtain d where "d \<in> set (radix_digits 10 (nat n))" "js_digit_char d = CHR ''-''" by auto
    with lt js_digit_char_not_minus show False by blast
  qed
  then have "CHR ''-'' \<notin> set (js_number_string n)"
    using assms by (simp add: js_number_string_def js_to_string_radix_def)
  moreover have "js_number_string n \<noteq> []"
    by (simp add: js_number_string_def js_to_string_radix_def radix_digits_ne)
  ultimately show ?thesis using parse_dec_number_string [OF assms] by blast
qed

section \<open>Properties of the page\<close>

text \<open>
  C28 (refinement).  Every button the rendered page lets the user press fires
  an event the state machine of \<open>App_Machine\<close> enables, so every property
  proved there for the reachable states holds for whatever the user clicks.
\<close>

theorem ui_buttons_sound:
  assumes "b \<in> set (page_buttons (render_app s tip wide))" "button_event s b e"
  shows "app_enabled s e"
  using assms
  by (cases "view s"; cases "currentReadingDoc s")
     (auto simp: render_app_def render_marketplace_def cards_buttons_iff split: if_splits app_event.splits)

theorem ui_buttons_sound_witness:
  "UB_Buy (MOCK_DOCS ! 1) \<in> set (page_buttons (render_app demo_market [] True))
   \<and> button_event demo_market (UB_Buy (MOCK_DOCS ! 1)) (Ev_Buy (MOCK_DOCS ! 1) True)
   \<and> app_enabled demo_market (Ev_Buy (MOCK_DOCS ! 1) True)"
proof -
  have b: "UB_Buy (MOCK_DOCS ! 1) \<in> set (page_buttons (render_app demo_market [] True))"
    by (simp add: demo_defs render_app_def render_marketplace_def render_navbar_def card_ui_buttons_def
        render_card_def)
  have e: "button_event demo_market (UB_Buy (MOCK_DOCS ! 1)) (Ev_Buy (MOCK_DOCS ! 1) True)" by simp
  show ?thesis using b e ui_buttons_sound [OF b e] by blast
qed

text \<open>
  C29 (refinement).  Conversely, on a wide viewport, while the user is logged
  in and no document is open, every event the state machine enables has a
  button on the page that fires it: the machine allows nothing the page does
  not offer.  On a narrow viewport the menu is hidden and no button opens the
  library view: only a completed purchase switches to it.
\<close>

lemma nav_buttons_wide:
  "set (map (UB_Nav \<circ> ni_target) (nv_items (render_navbar w u True)))
     = {UB_Nav HOME, UB_Nav MARKET, UB_Nav LIBRARY, UB_Nav UPLOAD}"
  by (auto simp: render_navbar_def navItems_def)

lemma no_library_button_narrow:
  "UB_Nav LIBRARY \<notin> set (page_buttons (render_app s tip False))"
  by (cases "view s"; cases "currentReadingDoc s")
     (auto simp: render_app_def render_navbar_def render_marketplace_def cards_buttons_iff)

theorem ui_buttons_complete:
  assumes "isAuthenticated s" "currentReadingDoc s = None" "app_enabled s e"
  shows "(\<exists>b\<in>set (page_buttons (render_app s tip True)). button_event s b e)
    \<and> (e = Ev_SetView LIBRARY \<longrightarrow> \<not> (\<exists>b\<in>set (page_buttons (render_app s tip False)). button_event s b e))"
proof
  show "e = Ev_SetView LIBRARY \<longrightarrow> \<not> (\<exists>b\<in>set (page_buttons (render_app s tip False)). button_event s b e)"
  proof (intro impI notI)
    assume e: "e = Ev_SetView LIBRARY" and "\<exists>b\<in>set (page_buttons (render_app s tip False)). button_event s b e"
    then obtain b where b: "b \<in> set (page_buttons (render_app s tip False))" "button_event s b e" by blast
    with e have "b = UB_Nav LIBRARY" by (cases b) (auto split: app_event.splits)
    with b(1) no_library_button_narrow show False by simp
  qed
next
  show "\<exists>b\<in>set (page_buttons (render_app s tip True)). button_event s b e"
  proof (cases e)
    case (Ev_SetView v)
    have "UB_Nav v \<in> set (map (UB_Nav \<circ> ni_target) (nv_items (render_navbar (view s) (app_user s) True)))"
      unfolding nav_buttons_wide by (cases v) simp_all
    with assms(1,2) have "UB_Nav v \<in> set (page_buttons (render_app s tip True))"
      by (simp add: render_app_def render_navbar_def)
    with Ev_SetView show ?thesis by (intro bexI [of _ "UB_Nav v"]) simp_all
  next
    case (Ev_Buy d c)
    with assms have "view s = MARKET" "d \<in> set (displayDocs (documents s) (app_user s) False)" by simp_all
    with assms(1,2) Ev_Buy show ?thesis
      by (auto simp: render_app_def render_marketplace_def cards_buttons_iff simp del: displayDocs_market_iff
          intro!: bexI [of _ "UB_Buy d"])
  next
    case (Ev_Read d)
    with assms have "view s = LIBRARY" "d \<in> set (displayDocs (documents s) (app_user s) True)" by simp_all
    with assms(1,2) Ev_Read show ?thesis
      by (auto simp: render_app_def render_marketplace_def cards_buttons_iff simp del: displayDocs_library_iff
          intro!: bexI [of _ "UB_Read d"])
  next
    case (Ev_QuickDownload d)
    with assms have "view s = LIBRARY" "d \<in> set (displayDocs (documents s) (app_user s) True)" by simp_all
    with assms(1,2) Ev_QuickDownload show ?thesis
      by (auto simp: render_app_def render_marketplace_def cards_buttons_iff simp del: displayDocs_library_iff
          intro!: bexI [of _ "UB_Quick d"])
  next
    case (Ev_Upload f i)
    with assms show ?thesis by (auto simp: render_app_def intro!: bexI [of _ UB_Submit])
  qed (use assms in simp_all)
qed

theorem ui_buttons_complete_witness:
  "isAuthenticated demo_market \<and> currentReadingDoc demo_market = None
   \<and> app_enabled demo_market (Ev_SetView LIBRARY)
   \<and> (\<exists>b\<in>set (page_buttons (render_app demo_market [] True)). button_event demo_market b (Ev_SetView LIBRARY))
   \<and> \<not> (\<exists>b\<in>set (page_buttons (render_app demo_market [] False)). button_event demo_market b (Ev_SetView LIBRARY))"
proof -
  have h: "isAuthenticated demo_market" "currentReadingDoc demo_market = None"
    "app_enabled demo_market (Ev_SetView LIBRARY)"
    by (simp_all add: demo_defs)
  show ?thesis using h ui_buttons_complete [OF h, of "[]"] by blast
qed

text \<open>
  C30 (safety).  In every reachable state each card of the library view shows
  the \<open>Locked\<close> badge and is bound to the session's device, and each card of
  the market view is of a document bound to no device, so a purchase from the
  market never takes over someone's binding.
\<close>

theorem library_cards_locked:
  assumes "reachable s"
  shows "(\<forall>c\<in>set (mv_cards (render_marketplace (documents s) (app_user s) True)).
            cv_locked c \<and> boundDeviceId (cv_doc c) = Some (deviceId (app_user s)))
    \<and> (\<forall>c\<in>set (mv_cards (render_marketplace (documents s) (app_user s) False)).
            \<not> cv_locked c \<and> boundDeviceId (cv_doc c) = None)"
proof -
  have inv: "app_inv s" by (rule reachable_app_inv [OF assms])
  have own: "boundDeviceId d = Some (deviceId (app_user s)) \<and> deviceId (app_user s) \<noteq> []"
    if "d \<in> set (documents s)" "doc_id d \<in> set (library (app_user s))" for d
  proof -
    have "boundDeviceId d \<noteq> None" "boundDeviceId d = None \<or> boundDeviceId d = Some (deviceId (app_user s))"
      using inv that unfolding app_inv_def by blast+
    moreover have "deviceId (app_user s) \<noteq> []" using inv that by (auto simp: app_inv_def)
    ultimately show ?thesis by auto
  qed
  have other: "boundDeviceId d = None"
    if "d \<in> set (documents s)" "doc_id d \<notin> set (library (app_user s))" for d
    using inv that by (auto simp: app_inv_def)
  show ?thesis
    using own other by (auto simp: render_marketplace_def render_card_def)
qed

theorem library_cards_locked_witness:
  "reachable demo_library
   \<and> map cv_locked (mv_cards (render_marketplace (documents demo_library) (app_user demo_library) True)) = [True]"
proof -
  have r: "reachable demo_library" using reachable_demo by blast
  have "map cv_locked (mv_cards (render_marketplace (documents demo_library) (app_user demo_library) True)) = [True]"
    using library_cards_locked [OF r]
    by (simp add: demo_defs render_marketplace_def render_card_def)
  with r show ?thesis by blast
qed

text \<open>
  C31 (functional).  The reader's sidebar shows the placeholder until the study
  tip arrives and then the tip itself, which is never empty: when the service
  fails it is the error default of \<open>getStudyTip\<close>.
\<close>

theorem reader_tip_shown:
  "rv_tip (render_reader d u [] w) = reader_tip_placeholder
   \<and> rv_tip (render_reader d u (getStudyTip api (title d)) w) = getStudyTip api (title d)
   \<and> getStudyTip api (title d) \<noteq> []
   \<and> (api (tip_request (title d)) = Api_Failed \<longrightarrow>
        rv_tip (render_reader d u (getStudyTip api (title d)) w) = tip_on_error)"
  using getStudyTip_ne [of api "title d"]
  by (simp add: render_reader_def getStudyTip_def tip_on_error_def)

theorem reader_tip_shown_witness:
  "offline_api (tip_request (title sample_doc)) = Api_Failed
   \<and> rv_tip (render_reader sample_doc guest_user (getStudyTip offline_api (title sample_doc)) True) = tip_on_error"
proof -
  have h: "offline_api (tip_request (title sample_doc)) = Api_Failed" by (simp add: offline_api_def)
  show ?thesis using h reader_tip_shown [of sample_doc guest_user True offline_api] by blast
qed

text \<open>
  C32 (roundtrip).  A buy button reads \<open>Mien Phi\<close> exactly for a free
  document; for a positive price it reads the price's decimal digits followed
  by \<open>CR\<close>, and those digits read back as the price.
\<close>

theorem price_label_roundtrip:
  "(price_label p = ''Mien Phi'' \<longleftrightarrow> p = 0)
   \<and> (0 < p \<longrightarrow> (\<exists>digits. price_label p = digits @ '' CR'' \<and> digits \<noteq> [] \<and> parse_dec digits = nat p))"
proof -
  have ne: "js_number_string p \<noteq> []"
    by (simp add: js_number_string_def js_to_string_radix_def radix_digits_ne)
  have "js_number_string p @ '' CR'' \<noteq> ''Mien Phi''"
  proof
    assume "js_number_string p @ '' CR'' = ''Mien Phi''"
    then have "rev (js_number_string p @ '' CR'') = rev ''Mien Phi''" by simp
    then show False by simp
  qed
  then have "price_label p = ''Mien Phi'' \<longleftrightarrow> p = 0" by (auto simp: price_label_def)
  moreover have "0 < p \<longrightarrow> price_label p = js_number_string p @ '' CR''
      \<and> parse_dec (js_number_string p) = nat p"
    using parse_dec_number_string [of p] by (simp add: price_label_def)
  ultimately show ?thesis using ne by blast
qed

theorem price_label_roundtrip_witness:
  "(0::int) < 120 \<and> price_label 120 = ''120 CR'' \<and> parse_dec ''120'' = 120"
proof -
  have h: "(0::int) < 120" by simp
  have "price_label 120 = ''120 CR''" by code_simp
  moreover have "parse_dec ''120'' = 120" by (simp add: parse_dec_def)
  ultimately show ?thesis using h price_label_roundtrip [of 120] by blast
qed

text \<open>
  C35 (roundtrip).  In every reachable state the navigation bar prints the
  balance as decimal digits, never with a minus sign, followed by
  \<open>Credits\<close>, and the digits read back as the balance.
\<close>

theorem navbar_balance_roundtrip:
  assumes "reachable s"
  shows "\<exists>digits. nv_balance (render_navbar v (app_user s) w) = digits @ '' Credits''
    \<and> digits \<noteq> [] \<and> CHR ''-'' \<notin> set digits \<and> parse_dec digits = nat (balance (app_user s))"
proof -
  have "0 \<le> balance (app_user s)" using reachable_app_inv [OF assms] by (simp add: app_inv_def)
  from number_string_nonneg [OF this] show ?thesis by (simp add: render_navbar_def)
qed

theorem navbar_balance_roundtrip_witness:
  "reachable demo_library \<and> nv_balance (render_navbar LIBRARY (app_user demo_library) True) = ''420 Credits''
   \<and> parse_dec ''420'' = 420"
proof -
  have r: "reachable demo_library" using reachable_demo by blast
  have "nv_balance (render_navbar LIBRARY (app_user demo_library) True) = ''420 Credits''"
    by (simp add: demo_defs render_navbar_def) code_simp
  moreover have "parse_dec ''420'' = 420" by (simp add: parse_dec_def)
  ultimately show ?thesis using r navbar_balance_roundtrip [OF r, of LIBRARY True] by blast
qed

end
