(* ===== verification/Tilt_Card.thy ===== *)
theory Tilt_Card
  imports Prelude
begin

text \<open>
  The tilting card, \<open>src/components/TiltCard.tsx\<close>, which frames every catalogue
  card and the login panel.  Its state hooks (lines 10--13) are a record; the
  three pointer handlers (lines 15--40) are functions on it; the inline style
  of lines 49--55 is \<open>tilt_render\<close>.  \<open>cardRef.current\<close> is the element's
  bounding rectangle or \<open>None\<close> before mounting.

  Numbers are modelled as \<open>real\<close>: the handlers only add, subtract, multiply
  and divide, so the model is JavaScript's arithmetic without rounding.  A card
  of width or height 0 divides by zero, which is \<open>NaN\<close> in JavaScript and 0
  in HOL; the properties assume a card of positive size.  The browser
  dispatches \<open>mouseenter\<close> before any \<open>mousemove\<close> and \<open>mousemove\<close> only
  while the pointer is over the element: the step relation \<open>tilt_reachable\<close>
  enables the events in that order.  \<open>handleMouseLeave\<close> keeps the glow's
  position from the state (the \<open>...glow\<close> spread of line 39).
\<close>

record card_rect =
  rect_left :: real
  rect_top :: real
  rect_width :: real
  rect_height :: real

record tilt_state =
  rotate_x :: real
  rotate_y :: real
  glow_x :: real
  glow_y :: real
  glow_opacity :: real
  isHovered :: bool

definition tilt_init :: tilt_state where
  "tilt_init =
     \<lparr>rotate_x = 0, rotate_y = 0, glow_x = 50, glow_y = 50, glow_opacity = 0, isHovered = False\<rparr>"

text \<open>Lines 15--30.\<close>

definition handleMouseMove :: "card_rect option \<Rightarrow> real \<Rightarrow> real \<Rightarrow> tilt_state \<Rightarrow> tilt_state" where
  "handleMouseMove ref clientX clientY s =
     (case ref of
        None \<Rightarrow> s
      | Some rect \<Rightarrow>
          (let x = clientX - rect_left rect; y = clientY - rect_top rect;
               centerX = rect_width rect / 2; centerY = rect_height rect / 2;
               rotateX = ((y - centerY) / centerY) * -12;
               rotateY = ((x - centerX) / centerX) * 12
           in s\<lparr>rotate_x := rotateX, rotate_y := rotateY,
                 glow_x := (x / rect_width rect) * 100, glow_y := (y / rect_height rect) * 100,
                 glow_opacity := 1\<rparr>))"

text \<open>Lines 32--40.\<close>

definition handleMouseEnter :: "tilt_state \<Rightarrow> tilt_state" where
  "handleMouseEnter s = s\<lparr>isHovered := True\<rparr>"

definition handleMouseLeave :: "tilt_state \<Rightarrow> tilt_state" where
  "handleMouseLeave s = s\<lparr>isHovered := False, rotate_x := 0, rotate_y := 0, glow_opacity := 0\<rparr>"

text \<open>Lines 49--63: the numbers the inline styles are built from.\<close>

record tilt_style =
  t_rotate_x :: real
  t_rotate_y :: real
  t_scale :: real
  t_zIndex :: int
  t_shadow :: bool
  t_glow_x :: real
  t_glow_y :: real
  t_glow_opacity :: real

definition tilt_render :: "tilt_state \<Rightarrow> tilt_style" where
  "tilt_render s =
     \<lparr>t_rotate_x = rotate_x s, t_rotate_y = rotate_y s,
      t_scale = (if isHovered s then 105 / 100 else 1),
      t_zIndex = (if isHovered s then 20 else 1), t_shadow = isHovered s,
      t_glow_x = glow_x s, t_glow_y = glow_y s, t_glow_opacity = glow_opacity s\<rparr>"

subsection \<open>The pointer events a mounted card receives\<close>

datatype tilt_event = T_Enter | T_Move real real | T_Leave

definition in_rect :: "card_rect \<Rightarrow> real \<Rightarrow> real \<Rightarrow> bool" where
  "in_rect r x y \<longleftrightarrow>
     rect_left r \<le> x \<and> x \<le> rect_left r + rect_width r
   \<and> rect_top r \<le> y \<and> y \<le> rect_top r + rect_height r"

fun tilt_enabled :: "card_rect \<Rightarrow> tilt_state \<Rightarrow> tilt_event \<Rightarrow> bool" where
  "tilt_enabled r s T_Enter = (\<not> isHovered s)"
| "tilt_enabled r s (T_Move x y) = (isHovered s \<and> in_rect r x y)"
| "tilt_enabled r s T_Leave = isHovered s"

fun tilt_step :: "card_rect \<Rightarrow> tilt_state \<Rightarrow> tilt_event \<Rightarrow> tilt_state" where
  "tilt_step r s T_Enter = handleMouseEnter s"
| "tilt_step r s (T_Move x y) = handleMouseMove (Some r) x y s"
| "tilt_step r s T_Leave = handleMouseLeave s"

inductive tilt_reachable :: "card_rect \<Rightarrow> tilt_state \<Rightarrow> bool" for r where
  init: "tilt_reachable r tilt_init"
| step: "tilt_reachable r s \<Longrightarrow> tilt_enabled r s ev \<Longrightarrow> tilt_reachable r (tilt_step r s ev)"

definition tilt_inv :: "tilt_state \<Rightarrow> bool" where
  "tilt_inv s \<longleftrightarrow>
     \<bar>rotate_x s\<bar> \<le> 12 \<and> \<bar>rotate_y s\<bar> \<le> 12
   \<and> 0 \<le> glow_x s \<and> glow_x s \<le> 100 \<and> 0 \<le> glow_y s \<and> glow_y s \<le> 100
   \<and> (glow_opacity s = 0 \<or> glow_opacity s = 1)
   \<and> (\<not> isHovered s \<longrightarrow> rotate_x s = 0 \<and> rotate_y s = 0 \<and> glow_opacity s = 0)"

text \<open>A card 200 pixels wide and 100 high at the origin.\<close>

definition sample_rect :: card_rect where
  "sample_rect = \<lparr>rect_left = 0, rect_top = 0, rect_width = 200, rect_height = 100\<rparr>"

section \<open>Lemmas\<close>

text \<open>An offset from the centre, divided by the half-width, stays in \<open>[-1, 1]\<close>.\<close>

lemma centred_ratio_bound:
  fixes c y :: real
  assumes "0 < c" "0 \<le> y" "y \<le> 2 * c"
  shows "\<bar>(y - c) / c\<bar> \<le> 1"
  using assms by (simp add: abs_le_iff divide_le_eq le_divide_eq)

lemma scaled_unit_bound:
  fixes a k :: real
  assumes "\<bar>a\<bar> \<le> 1"
  shows "\<bar>a * k\<bar> \<le> \<bar>k\<bar>"
  using assms by (simp add: abs_mult mult_left_le_one_le)

lemma percent_bounds:
  fixes w x :: real
  assumes "0 < w" "0 \<le> x" "x \<le> w"
  shows "0 \<le> x / w * 100 \<and> x / w * 100 \<le> 100"
  using assms by (simp add: divide_le_eq)

lemma handleMouseMove_bounds:
  fixes s :: tilt_state
  assumes "0 < rect_width r" "0 < rect_height r" "in_rect r x y"
  defines "s' \<equiv> handleMouseMove (Some r) x y s"
  shows "\<bar>rotate_x s'\<bar> \<le> 12 \<and> \<bar>rotate_y s'\<bar> \<le> 12
    \<and> 0 \<le> glow_x s' \<and> glow_x s' \<le> 100 \<and> 0 \<le> glow_y s' \<and> glow_y s' \<le> 100
    \<and> glow_opacity s' = 1 \<and> isHovered s' = isHovered s"
proof -
  let ?x = "x - rect_left r" and ?y = "y - rect_top r"
  let ?cx = "rect_width r / 2" and ?cy = "rect_height r / 2"
  have x: "0 \<le> ?x" "?x \<le> 2 * ?cx" "?x \<le> rect_width r"
    and y: "0 \<le> ?y" "?y \<le> 2 * ?cy" "?y \<le> rect_height r"
    using assms(3) by (simp_all add: in_rect_def)
  have rx: "\<bar>(?y - ?cy) / ?cy\<bar> \<le> 1" using centred_ratio_bound [OF _ y(1,2)] assms(2) by simp
  have ry: "\<bar>(?x - ?cx) / ?cx\<bar> \<le> 1" using centred_ratio_bound [OF _ x(1,2)] assms(1) by simp
  have "\<bar>(?y - ?cy) / ?cy * -12\<bar> \<le> 12"
    by (rule order_trans [OF scaled_unit_bound [OF rx]]) simp
  moreover have "\<bar>(?x - ?cx) / ?cx * 12\<bar> \<le> 12"
    by (rule order_trans [OF scaled_unit_bound [OF ry]]) simp
  moreover note percent_bounds [OF assms(1) x(1,3)] percent_bounds [OF assms(2) y(1,3)]
  moreover have "rotate_x s' = (?y - ?cy) / ?cy * -12" "rotate_y s' = (?x - ?cx) / ?cx * 12"
    "glow_x s' = ?x / rect_width r * 100" "glow_y s' = ?y / rect_height r * 100"
    "glow_opacity s' = 1" "isHovered s' = isHovered s"
    by (simp_all add: s'_def handleMouseMove_def Let_def)
  ultimately show ?thesis by (simp only:)
qed

lemma tilt_inv_init: "tilt_inv tilt_init"
  by (simp add: tilt_inv_def tilt_init_def)

lemma tilt_inv_step:
  assumes "0 < rect_width r" "0 < rect_height r" "tilt_inv s" "tilt_enabled r s ev"
  shows "tilt_inv (tilt_step r s ev)"
proof (cases ev)
  case (T_Move x y)
  with assms(4) have "in_rect r x y" "isHovered s" by simp_all
  with handleMouseMove_bounds [OF assms(1,2) this(1), of s] T_Move show ?thesis
    by (simp add: tilt_inv_def)
qed (use assms in \<open>simp_all add: tilt_inv_def handleMouseEnter_def handleMouseLeave_def\<close>)

lemma tilt_reachable_inv:
  assumes "0 < rect_width r" "0 < rect_height r" "tilt_reachable r s"
  shows "tilt_inv s"
  using assms(3)
proof (induction rule: tilt_reachable.induct)
  case init
  show ?case by (rule tilt_inv_init)
next
  case (step s ev)
  from assms(1,2) step.IH step.hyps(2) show ?case by (rule tilt_inv_step)
qed

section \<open>Properties of the card\<close>

text \<open>
  C23 (bounds).  For a pointer over a card of positive size, \<open>handleMouseMove\<close>
  tilts the card by at most 12 degrees about each axis, puts the glow inside
  the card (0 to 100 per cent of each side) and lights it; at the centre the
  card is flat.
\<close>

theorem tilt_bounds:
  assumes "0 < rect_width r" "0 < rect_height r" "in_rect r x y"
  shows "\<bar>rotate_x (handleMouseMove (Some r) x y s)\<bar> \<le> 12
    \<and> \<bar>rotate_y (handleMouseMove (Some r) x y s)\<bar> \<le> 12
    \<and> 0 \<le> glow_x (handleMouseMove (Some r) x y s) \<and> glow_x (handleMouseMove (Some r) x y s) \<le> 100
    \<and> 0 \<le> glow_y (handleMouseMove (Some r) x y s) \<and> glow_y (handleMouseMove (Some r) x y s) \<le> 100
    \<and> glow_opacity (handleMouseMove (Some r) x y s) = 1
    \<and> rotate_x (handleMouseMove (Some r) (rect_left r + rect_width r / 2) (rect_top r + rect_height r / 2) s) = 0
    \<and> rotate_y (handleMouseMove (Some r) (rect_left r + rect_width r / 2) (rect_top r + rect_height r / 2) s) = 0"
  using handleMouseMove_bounds [OF assms, of s] by (simp add: handleMouseMove_def Let_def)

theorem tilt_bounds_witness:
  "0 < rect_width sample_rect \<and> 0 < rect_height sample_rect \<and> in_rect sample_rect 150 25
   \<and> rotate_y (handleMouseMove (Some sample_rect) 150 25 tilt_init) = 6
   \<and> rotate_x (handleMouseMove (Some sample_rect) 150 25 tilt_init) = 6
   \<and> \<bar>rotate_x (handleMouseMove (Some sample_rect) 150 25 tilt_init)\<bar> \<le> 12"
proof -
  have h: "0 < rect_width sample_rect" "0 < rect_height sample_rect" "in_rect sample_rect 150 25"
    by (simp_all add: sample_rect_def in_rect_def)
  show ?thesis
    using h tilt_bounds [OF h, of tilt_init] by (simp add: sample_rect_def handleMouseMove_def)
qed

text \<open>
  C24 (invariant).  On a card of positive size, every state the pointer events
  can produce keeps the tilt within 12 degrees and the glow inside the card with
  opacity 0 or 1, and a card the pointer has left lies flat and unlit, drawn at
  scale 1 on layer 1.
\<close>

theorem tilt_invariant:
  assumes "0 < rect_width r" "0 < rect_height r" "tilt_reachable r s"
  shows "\<bar>rotate_x s\<bar> \<le> 12 \<and> \<bar>rotate_y s\<bar> \<le> 12
    \<and> 0 \<le> glow_x s \<and> glow_x s \<le> 100 \<and> 0 \<le> glow_y s \<and> glow_y s \<le> 100
    \<and> (glow_opacity s = 0 \<or> glow_opacity s = 1)
    \<and> (\<not> isHovered s \<longrightarrow> tilt_render s = \<lparr>t_rotate_x = 0, t_rotate_y = 0, t_scale = 1, t_zIndex = 1,
          t_shadow = False, t_glow_x = glow_x s, t_glow_y = glow_y s, t_glow_opacity = 0\<rparr>)"
  using tilt_reachable_inv [OF assms] by (auto simp: tilt_inv_def tilt_render_def)

theorem tilt_invariant_witness:
  "tilt_reachable sample_rect (handleMouseLeave (handleMouseMove (Some sample_rect) 150 25 (handleMouseEnter tilt_init)))
   \<and> tilt_render (handleMouseLeave (handleMouseMove (Some sample_rect) 150 25 (handleMouseEnter tilt_init)))
     = \<lparr>t_rotate_x = 0, t_rotate_y = 0, t_scale = 1, t_zIndex = 1,
        t_shadow = False, t_glow_x = 75, t_glow_y = 25, t_glow_opacity = 0\<rparr>"
proof -
  let ?s1 = "handleMouseEnter tilt_init"
  let ?s2 = "handleMouseMove (Some sample_rect) 150 25 ?s1"
  have r1: "tilt_reachable sample_rect ?s1"
    using tilt_reachable.step [OF tilt_reachable.init, of sample_rect T_Enter] by (simp add: tilt_init_def)
  have r2: "tilt_reachable sample_rect ?s2"
    using tilt_reachable.step [OF r1, of "T_Move 150 25"]
    by (simp add: handleMouseEnter_def tilt_init_def sample_rect_def in_rect_def)
  have r3: "tilt_reachable sample_rect (handleMouseLeave ?s2)"
    using tilt_reachable.step [OF r2, of T_Leave]
    by (simp add: handleMouseEnter_def handleMouseMove_def tilt_init_def)
  have p: "0 < rect_width sample_rect" "0 < rect_height sample_rect" by (simp_all add: sample_rect_def)
  have "\<not> isHovered (handleMouseLeave ?s2)" by (simp add: handleMouseLeave_def)
  with r3 tilt_invariant [OF p r3] show ?thesis
    by (simp add: handleMouseLeave_def handleMouseMove_def handleMouseEnter_def tilt_init_def sample_rect_def)
qed

end
