(* ===== verification/Spec2Isabelle.thy ===== *)
theory Spec2Isabelle
  imports App_Machine Reader_Export Gemini_Service Page_View Tilt_Card
begin

text \<open>
  \<^bold>\<open>StudyVerse storefront: the device-binding licensing core.\<close>

  The repository is a React storefront (\<open>src/\<close>) for buying and reading study
  documents.  Its only part with state, invariants and failure modes is the
  licensing core: a device identity, the purchase that binds a document to it,
  and the check that guards reading and exporting.  This development models
  that core from the source and proves what makes it correct.

  \<^bold>\<open>Parts and how they interact.\<close>  The login screen (\<open>Login.tsx\<close>) reads the
  device identity (\<open>getDeviceId\<close>, \<open>utils/security.ts\<close>) at mount and, for an
  accepted access code, calls the application's \<open>handleLogin\<close>.  The
  application (\<open>App.tsx\<close>) keeps the session user (balance, library, device)
  and the catalogue in React state; the market view (\<open>Marketplace.tsx\<close>)
  offers a buy button per unowned document (\<open>handleBuy\<close>: guards, debit, grant,
  binding), the upload form (\<open>UploadModal.tsx\<close>) hands a payload to
  \<open>handleUpload\<close>, and the library view offers reading (\<open>handleRead\<close>, which
  opens the reader) and a quick export (\<open>handleQuickDownload\<close>); the reader
  (\<open>Reader.tsx\<close>) exports the open document (\<open>handleDownload\<close>).

  \<^bold>\<open>Theories.\<close>
  \<^item> \<open>Prelude\<close>: JavaScript truthiness of optional strings, the list idioms
    \<open>map_where\<close> (update the records with a key) and \<open>find_key\<close>, word bounds.
  \<^item> \<open>Store_Types\<close>: \<open>types.ts\<close> as datatypes and records, and the upload
    payload shared by the form and the application.
  \<^item> \<open>Device_Id\<close>: \<open>getDeviceId\<close> with \<open>localStorage\<close> as a map, the rolling hash
    with \<open>ToInt32\<close> written out (\<open>hash_loop\<close>), its 32-bit word form
    (\<open>hash_w\<close>) and the polynomial it computes, the \<open>DEV-\<close> formatting.
  \<^item> \<open>Access_Gate\<close>: \<open>verifyDeviceBinding\<close> and the specification's
    \<open>authorize\<close> contract.
  \<^item> \<open>Licensing\<close>: the application state, the mock catalogue and the handlers
    \<open>handleLogin\<close>, \<open>handleBuy\<close> (with its ledger part \<open>buy_user_update\<close> and
    catalogue part \<open>bind_documents\<close>), \<open>handleUpload\<close>, \<open>handleRead\<close>.
  \<^item> \<open>Marketplace\<close>: the two catalogue views and the quick export.
  \<^item> \<open>Upload_Form\<close>: the form's fields, the AI-analysis steps, the browser's
    constraint validation and the payload.
  \<^item> \<open>Login_Gate\<close>: the login screen as a state machine with its timers.
  \<^item> \<open>App_Machine\<close>: the events the rendered page enables, the step function,
    the reachable states from the start state, the invariant \<open>app_inv\<close>, and
    the specification's ledger (\<open>abs_ledger\<close>, \<open>spec_purchase\<close>,
    \<open>spec_publish\<close>).
  \<^item> \<open>Reader_Export\<close>: the reader's export file.
  \<^item> \<open>Gemini_Service\<close>: \<open>analyzeDocument\<close> and \<open>getStudyTip\<close> of
    \<open>services/geminiService.ts\<close>, the network a function from request to reply
    and the JSON parser a parameter, every failure a branch to the fallback.
  \<^item> \<open>Tilt_Card\<close>: \<open>TiltCard.tsx\<close>'s pointer handlers over real arithmetic
    and the browser's event order as a step relation.
  \<^item> \<open>Page_View\<close>: what \<open>App\<close>, \<open>Navbar\<close>, \<open>Hero\<close>, \<open>Marketplace\<close> and
    \<open>Reader\<close> render, the buttons a pointer can reach (the reader's full-screen
    layer hides everything else) and the events of \<open>App_Machine\<close> they fire.
  \<^item> This theory: the properties that span components.

  \<^bold>\<open>What is proved.\<close>  For the handlers: a purchase completes exactly when the
  document is unowned, affordable and confirmed, and otherwise changes nothing;
  a completed purchase debits, grants and binds exactly.  For the running
  storefront (all reachable states): the balance never goes negative, the
  library holds each catalogue document once and only grows, a document is
  bound exactly when owned and always to the session's device, bindings are
  never changed once set, each step refines the specification's ledger, and
  the device check never refuses the user's own documents.  For the check:
  both call sites decide as \<open>verifyDeviceBinding\<close>, which refines
  \<open>authorize\<close> except on the empty binding, and the reader only exports a
  document that passed it.  For the identity: repeated calls return the first
  identifier and write storage at most once, the hash loop equals the
  31-polynomial modulo \<open>2\<^sup>3\<^sup>2\<close>, generated identifiers are \<open>DEV-\<close> and one to
  eight upper-case hexadecimal digits and determine exactly the absolute value
  of the hash.  For the login screen: \<open>onLogin\<close> is called only with an
  accepted code and the mounted identity (so the application's guest branch is
  dead), at most three attempts are counted, the third rejected one locks
  the screen, the lock always ends and a run to \<open>onLogin\<close> always exists
  (liveness), and the rendered controls are exactly the enabled events.  For
  the page: every button the user can press fires an enabled event (so the
  invariants of the state machine cover every click) and, on a wide viewport
  with no document open, every enabled event has a button, while on a narrow
  viewport, where the menu is hidden, no button opens the library; library cards
  are all locked to the session's device and market cards all unbound; a price
  label reads back as the price.  For the helper: an
  analysis always completes, and a failing service still lets the form publish
  at the fallback price.  For the card: tilt and glow stay in range.  The hash
  loop as written terminates with the hash, and every catalogue entry stays a
  well-formed document.  The reader's export is exactly its template text; the
  navigation bar's balance reads back as the balance.

  \<^bold>\<open>Bounds and assumptions.\<close>  No loop of the core is unbounded: the hash and
  the formatting recurse on the string and on the number (\<open>fun\<close>, with a
  termination proof for \<open>radix_digits\<close>), so no fuel is needed.  The hexadecimal
  part has at most eight digits because \<open>|hash| \<le> 2\<^sup>3\<^sup>1 < 16\<^sup>8\<close>.  An uploaded
  document's random identifier is assumed fresh in the catalogue; the browser
  inputs, the random seed, the AI answer, the confirmation dialog, the time
  stamp and whether the viewport reaches the \<open>md\<close> breakpoint are parameters.  Characters are bytes, so non-ASCII text is outside the
  model; the mock catalogue's Vietnamese strings are transliterated.  The
  application accepts a login event only as the login screen emits it
  (an accepted code and a non-empty device); the property \<open>login_to_session\<close>
  below shows the screen never emits anything else.

  The hash loop is also modelled as written, a \<open>while_option\<close> over an index,
  and proved to return (\<open>hash_for_returns\<close>); the login screen's liveness is
  stated over finite runs (\<open>login_run\<close>), at most six events long.  The
  card's arithmetic is exact: JavaScript's rounding and the \<open>NaN\<close> of a zero-size
  card are outside the model, whose card properties assume a positive size.

  \<^bold>\<open>Not modelled.\<close>  Markup, classes, images and animations of the
  components; the decorative parts of \<open>Hero.tsx\<close> (its lines 9--41 and 56--86
  have no behaviour); the Gemini client itself (\<open>new GoogleGenAI\<close>), whose
  replies are a parameter; \<open>JSON.parse\<close>, a parameter; the reader's tracking log
  and its local time; and the build configuration (\<open>vite.config.ts\<close>), which
  has no run-time behaviour beyond injecting the API key.
\<close>

section \<open>Properties across components\<close>

text \<open>
  C7 (equivalence).  The two call sites of the device check, reading
  (\<open>handleRead\<close> in \<open>App.tsx\<close>) and quick export (\<open>handleQuickDownload\<close> in
  \<open>Marketplace.tsx\<close>), deny exactly the same documents for the same user.
\<close>

theorem gate_call_sites_agree:
  "(\<exists>b r. fst (handleRead s d) = Read_Denied b r) \<longleftrightarrow> handleQuickDownload (app_user s) d = QD_Denied"
  by (auto simp: handleRead_def handleQuickDownload_def split: option.splits)

text \<open>
  C17 (safety).  Every \<open>onLogin\<close> call the login screen makes is a login the
  application accepts, and it always yields one of the two member profiles
  with an empty library and the mounted device: the guest branch of
  \<open>handleLogin\<close> is never taken.
\<close>

theorem login_to_session:
  assumes "login_emits st e (k, d)"
  shows "app_enabled initial_state (Ev_Login k d)
    \<and> reachable (app_step initial_state (Ev_Login k d))
    \<and> balance (app_user (app_step initial_state (Ev_Login k d))) \<in> {500, 9999}
    \<and> library (app_user (app_step initial_state (Ev_Login k d))) = []
    \<and> deviceId (app_user (app_step initial_state (Ev_Login k d))) = fst (getDeviceId st e)"
proof -
  from login_emits.cases [OF assms] obtain s ev where
    r: "login_reachable st e s" and out: "snd (login_step s ev) = Some (k, d)"
    by blast
  have kd: "login_key_accepted k \<and> d = fst (getDeviceId st e)"
    using login_step_output [OF login_reachable_inv [OF r] out] .
  then have en: "app_enabled initial_state (Ev_Login k d)"
    using getDeviceId_ne [of st e] by (simp add: initial_state_def)
  have "reachable (app_step initial_state (Ev_Login k d))"
    by (rule reachable.step [OF reachable.init en])
  with en kd show ?thesis
    by (auto simp: handleLogin_def login_profile_def login_key_accepted_def)
qed

theorem login_to_session_witness:
  "login_emits Map.empty sample_env (''vip123@'', fst (getDeviceId Map.empty sample_env))
   \<and> balance (app_user (app_step initial_state
        (Ev_Login ''vip123@'' (fst (getDeviceId Map.empty sample_env))))) = 9999"
proof -
  let ?s0 = "login_init Map.empty sample_env"
  let ?s1 = "fst (login_step ?s0 (L_Type ''vip123@''))"
  let ?s2 = "fst (login_step ?s1 L_Submit)"
  let ?s3 = "fst (login_step ?s2 L_ScanDone)"
  have r0: "login_reachable Map.empty sample_env ?s0" by (rule login_reachable.init)
  have r1: "login_reachable Map.empty sample_env ?s1"
    by (rule login_reachable.step [OF r0]) (simp add: login_init_def)
  have r2: "login_reachable Map.empty sample_env ?s2"
    by (rule login_reachable.step [OF r1]) (simp add: login_init_def)
  have r3: "login_reachable Map.empty sample_env ?s3"
    by (rule login_reachable.step [OF r2]) (simp add: login_init_def login_submit_def)
  have en: "login_enabled ?s3 L_LoginFire"
    by (simp add: login_init_def login_submit_def login_scan_done_def login_key_accepted_def)
  have out: "snd (login_step ?s3 L_LoginFire) = Some (''vip123@'', fst (getDeviceId Map.empty sample_env))"
    by (simp add: login_init_def login_submit_def login_scan_done_def login_key_accepted_def)
  have em: "login_emits Map.empty sample_env (''vip123@'', fst (getDeviceId Map.empty sample_env))"
    by (rule login_emits.emit [OF r3 en out])
  show ?thesis
    using em login_to_session [OF em] by (simp add: handleLogin_def login_profile_def)
qed

text \<open>
  C11 (safety).  The reader's export has no device check of its own, yet in
  every reachable state the document open in the reader passes
  \<open>verifyDeviceBinding\<close> for the session's device, so every file the reader
  exports is of a document the device may read.
\<close>

theorem reader_export_guarded:
  assumes "reachable s" "currentReadingDoc s = Some d"
  shows "verifyDeviceBinding d (deviceId (app_user s))
    \<and> file_name (handleDownload (app_user s) d t) = reader_file_name (app_user s) d"
  using reachable_app_inv [OF assms(1)] assms(2)
  by (simp add: app_inv_def handleDownload_def)

theorem reader_export_guarded_witness:
  "reachable (app_step demo_library (Ev_Read (documents demo_library ! 1)))
   \<and> currentReadingDoc (app_step demo_library (Ev_Read (documents demo_library ! 1)))
       = Some (documents demo_library ! 1)
   \<and> verifyDeviceBinding (documents demo_library ! 1) ''DEV-AAAA''"
proof -
  have r0: "reachable demo_library" using reachable_demo by blast
  have en: "app_enabled demo_library (Ev_Read (documents demo_library ! 1))"
    by (simp add: demo_defs Let_def)
  have r: "reachable (app_step demo_library (Ev_Read (documents demo_library ! 1)))"
    by (rule reachable.step [OF r0 en])
  have c: "currentReadingDoc (app_step demo_library (Ev_Read (documents demo_library ! 1)))
       = Some (documents demo_library ! 1)"
    by (simp add: demo_defs Let_def handleRead_def)
  have dev: "deviceId (app_user (app_step demo_library (Ev_Read (documents demo_library ! 1)))) = ''DEV-AAAA''"
    by (simp add: demo_defs Let_def handleRead_def)
  show ?thesis using r c dev reader_export_guarded [OF r c, of "[]"] by simp
qed

end
